theory Spec2Isabelle
  imports Complex_Main
begin

section \<open>The environment of the service: transport, timers, console\<close>

text \<open>
  The service (class \<open>WebSocketService\<close>) drives a browser \<open>WebSocket\<close>, the timer
  functions \<open>setTimeout\<close>/\<open>setInterval\<close>, \<open>Date.now()\<close> and the console. None of
  them is code of the repository, so they are modelled as explicit state beside the
  fields of the class:
  \<^item> every constructed transport is a \<open>socket\<close> in the list \<open>sockets\<close>; its position
    is its identity, and the field \<open>ws\<close> of the service holds such a position;
  \<^item> what a transport does on a call of its \<open>send\<close> is a parameter: the socket carries
    a finite \<open>script\<close> of effects for its next calls (raise or accept, and the ready
    state afterwards); once the script is used up it behaves as the WebSocket API
    says;
  \<^item> pending timers are the list \<open>timers\<close>; a timer has an identity, a kind (which
    callback it runs), a due time and, for an interval, its period;
  \<^item> the console is the list of the lines logged so far, each with its level. The
    text of a line is the template of the source: interpolated values are not
    rendered.
  Numbers that the source only counts are \<open>nat\<close>; milliseconds and byte sizes
  that it subtracts or compares with large constants are \<open>int\<close>; the backoff
  delay is a \<open>real\<close>.
\<close>

datatype ready_state = CONNECTING | OPEN | CLOSING | CLOSED

datatype send_effect = SendEffect (raises: bool) (state_after: ready_state)

record socket =
  readyState :: ready_state
  sent :: "string list"
  script :: "send_effect list"

datatype ctor_plan = CtorThrows | CtorOk "send_effect list"

datatype exn = TypeError | InvalidStateError | SendFailure

datatype timer_kind = ReconnectTimeout | HealthInterval | PerformanceInterval | CleanupInterval

record timer =
  tid :: nat
  kind :: timer_kind
  due :: int
  period :: "int option"

datatype log_type = Info | Warn | Error

datatype quality = Good | Poor | Degraded

text \<open>
  A message handed to \<open>send\<close> is a string or an object. An object is represented by
  what \<open>JSON.stringify\<close> does with it: it yields a text, or it raises (a circular
  structure, a BigInt field).
\<close>

datatype js_object = JsonText string | Circular

datatype message = Text string | Object js_object

text \<open>
  An inbound frame: an \<open>ArrayBuffer\<close> of some byte length, or a text of some length
  together with what \<open>JSON.parse\<close> and the test \<open>data.action === "pong"\<close> make of it.
\<close>

datatype parsed = Malformed | PongAction | Payload

datatype inbound = ArrayBuffer nat | TextFrame nat parsed

datatype listener = Listener (lid: nat) (throws: bool)

record rate_limit =
  timestamp :: int
  count :: nat

record leak_detection =
  lastMemoryUsage :: int
  checkCount :: nat
  increasingCount :: nat

text \<open>
  The fields of the class, then the environment. Left out are the fields that the
  source only writes and never reads in a decision (\<open>messagesSent\<close>,
  \<open>messagesReceived\<close>, \<open>bytesTransferred\<close>, \<open>lastPerformanceCheck\<close>,
  \<open>memoryUsageBreakdown\<close> and the floating-point entries of \<open>performanceMetrics\<close>).
  The one place where the metrics object is read is the length of its JSON text in
  the performance report; that text renders a floating-point rate, so its length is
  a reading of the environment, \<open>metricsJsonLength\<close>.
\<close>

record world =
  ws :: "nat option"
  reconnectTimer :: "nat option"
  healthCheckTimer :: "nat option"
  performanceMonitor :: "nat option"
  messageQueue :: "message list"
  listeners :: "listener list"
  reconnectCount :: nat
  missedPings :: nat
  lastPongTime :: int
  lastMessageTime :: int
  connectionStartTime :: int
  isInitialized :: bool
  isReconnecting :: bool
  connectionQuality :: quality
  HEALTH_CHECK_INTERVAL :: int
  HEALTH_CHECK_TIMEOUT :: int
  rateLimitCounter :: rate_limit
  txBytes :: nat
  rxBytes :: nat
  txCount :: nat
  rxCount :: nat
  failureRate :: nat
  memoryLeakDetection :: leak_detection
  now :: int
  hasWindow :: bool
  usedJSHeapSize :: "int option"
  metricsJsonLength :: nat
  upcoming :: "ctor_plan list"
  sockets :: "socket list"
  timers :: "timer list"
  nextTimer :: nat
  console :: "(log_type \<times> string) list"

datatype outcome = Returned world | Raised exn world

fun state_of :: "outcome \<Rightarrow> world" where
  "state_of (Returned w) = w"
| "state_of (Raised e w) = w"

subsection \<open>Constants of the class\<close>

definition MAX_RECONNECT_ATTEMPTS :: nat where "MAX_RECONNECT_ATTEMPTS = 5"
definition RECONNECT_INTERVAL :: real where "RECONNECT_INTERVAL = 3000"
definition MAX_MISSED_PINGS :: nat where "MAX_MISSED_PINGS = 2"
definition MAX_QUEUE_SIZE :: nat where "MAX_QUEUE_SIZE = 100"
definition MAX_MESSAGE_SIZE :: int where "MAX_MESSAGE_SIZE = 1024 * 1024"
definition MAX_BACKOFF_DELAY :: real where "MAX_BACKOFF_DELAY = 30000"
definition ZOMBIE_CONNECTION_TIMEOUT :: int where "ZOMBIE_CONNECTION_TIMEOUT = 90000"
definition RATE_LIMIT_RESET :: int where "RATE_LIMIT_RESET = 60000"
definition MAX_RATE_LIMIT_ATTEMPTS :: nat where "MAX_RATE_LIMIT_ATTEMPTS = 10"
definition PERFORMANCE_CHECK_INTERVAL :: int where "PERFORMANCE_CHECK_INTERVAL = 60000"
definition MAX_MEMORY_USAGE :: int where "MAX_MEMORY_USAGE = 230 * 1024 * 1024"

subsection \<open>Console, timers, transport\<close>

definition log_line :: "string \<Rightarrow> log_type \<Rightarrow> world \<Rightarrow> world" where
  "log_line msg ty w = w\<lparr>console := console w @ [(ty, msg)]\<rparr>"

text \<open>\<open>setTimeout\<close> and \<open>setInterval\<close>: a fresh identity, due after the delay.\<close>

definition setTimeout :: "timer_kind \<Rightarrow> int \<Rightarrow> world \<Rightarrow> nat \<times> world" where
  "setTimeout k d w =
     (nextTimer w,
      w\<lparr>timers := timers w @ [\<lparr>tid = nextTimer w, kind = k, due = now w + d, period = None\<rparr>],
        nextTimer := nextTimer w + 1\<rparr>)"

definition setInterval :: "timer_kind \<Rightarrow> int \<Rightarrow> world \<Rightarrow> nat \<times> world" where
  "setInterval k d w =
     (nextTimer w,
      w\<lparr>timers := timers w @ [\<lparr>tid = nextTimer w, kind = k, due = now w + d, period = Some d\<rparr>],
        nextTimer := nextTimer w + 1\<rparr>)"

text \<open>\<open>clearTimeout\<close> and \<open>clearInterval\<close>: the timer is no longer pending.\<close>

definition clearTimer :: "nat \<Rightarrow> world \<Rightarrow> world" where
  "clearTimer i w = w\<lparr>timers := filter (\<lambda>t. tid t \<noteq> i) (timers w)\<rparr>"

text \<open>\<open>this.ws?.readyState\<close>: absent when there is no handle.\<close>

definition getConnectionState :: "world \<Rightarrow> ready_state option" where
  "getConnectionState w =
     (case ws w of
        None \<Rightarrow> None
      | Some i \<Rightarrow> if i < length (sockets w) then Some (readyState (sockets w ! i)) else None)"

definition isConnected :: "world \<Rightarrow> bool" where
  "isConnected w = (getConnectionState w = Some OPEN)"

text \<open>
  The transport's \<open>send\<close>. By the WebSocket API it raises while connecting and
  discards silently while closing or closed. While open, the next effect of the
  script decides; with no script left the frame is transmitted.
\<close>

definition ws_send :: "string \<Rightarrow> socket \<Rightarrow> exn option \<times> socket" where
  "ws_send str s =
     (case readyState s of
        CONNECTING \<Rightarrow> (Some InvalidStateError, s)
      | CLOSING \<Rightarrow> (None, s)
      | CLOSED \<Rightarrow> (None, s)
      | OPEN \<Rightarrow>
          (case script s of
             [] \<Rightarrow> (None, s\<lparr>sent := sent s @ [str]\<rparr>)
           | e # es \<Rightarrow>
               if raises e
               then (Some SendFailure, s\<lparr>readyState := state_after e, script := es\<rparr>)
               else (None, s\<lparr>readyState := state_after e, sent := sent s @ [str], script := es\<rparr>)))"

text \<open>
  The transport's \<open>close()\<close>: an open or connecting socket starts closing; the close
  event comes later, as an event of its own.
\<close>

definition ws_close :: "socket \<Rightarrow> socket" where
  "ws_close s =
     (case readyState s of
        CONNECTING \<Rightarrow> s\<lparr>readyState := CLOSING\<rparr>
      | OPEN \<Rightarrow> s\<lparr>readyState := CLOSING\<rparr>
      | CLOSING \<Rightarrow> s
      | CLOSED \<Rightarrow> s)"

definition getMemoryUsage :: "world \<Rightarrow> int" where
  "getMemoryUsage w = (case usedJSHeapSize w of Some m \<Rightarrow> m | None \<Rightarrow> 0)"

section \<open>The service\<close>

subsection \<open>Outbound queue and send\<close>

definition JSON_stringify :: "js_object \<Rightarrow> exn + string" where
  "JSON_stringify ob = (case ob of JsonText s \<Rightarrow> Inr s | Circular \<Rightarrow> Inl TypeError)"

definition serialize :: "message \<Rightarrow> exn + string" where
  "serialize message = (case message of Text s \<Rightarrow> Inr s | Object ob \<Rightarrow> JSON_stringify ob)"

text \<open>\<open>getMessageSize\<close> on a string: two bytes for each UTF-16 unit.\<close>

definition getMessageSize :: "string \<Rightarrow> nat" where
  "getMessageSize d = length d * 2"

definition queueMessage :: "message \<Rightarrow> world \<Rightarrow> world" where
  "queueMessage message w =
     (if length (messageQueue w) < MAX_QUEUE_SIZE
      then w\<lparr>messageQueue := messageQueue w @ [message]\<rparr>
      else log_line ''Message queue overflow, dropping message'' Warn w)"

text \<open>
  \<open>send\<close>: the serialisation is the first statement, outside every \<open>try\<close>, so what
  it raises reaches the caller; the transport's \<open>send\<close> is inside the \<open>try\<close>.
\<close>

definition send :: "message \<Rightarrow> world \<Rightarrow> outcome" where
  "send message w =
     (case serialize message of
        Inl e \<Rightarrow> Raised e w
      | Inr messageStr \<Rightarrow>
          if int (length messageStr) > MAX_MESSAGE_SIZE
          then Returned (log_line ''Message exceeds maximum size limit'' Error w)
          else if isConnected w
          then (case ws w of
                  None \<Rightarrow> Returned (queueMessage message w)
                | Some i \<Rightarrow>
                    (case ws_send messageStr (sockets w ! i) of
                       (None, s) \<Rightarrow>
                         Returned (w\<lparr>sockets := (sockets w)[i := s],
                                     txCount := txCount w + 1,
                                     txBytes := txBytes w + getMessageSize messageStr\<rparr>)
                     | (Some e, s) \<Rightarrow>
                         Returned (queueMessage message
                           (log_line ''Error sending message: ${error}'' Error
                              (w\<lparr>sockets := (sockets w)[i := s]\<rparr>)))))
          else Returned (queueMessage message w))"

text \<open>The test \<open>if (message)\<close>: the empty string is falsy, every object is truthy.\<close>

definition truthy :: "message \<Rightarrow> bool" where
  "truthy message = (case message of Text s \<Rightarrow> s \<noteq> [] | Object ob \<Rightarrow> True)"

text \<open>
  The measure of the drain loop: the queued messages and the scripted effects the
  current transport has left.
\<close>

definition pending_work :: "world \<Rightarrow> nat" where
  "pending_work w =
     length (messageQueue w) +
     (case ws w of
        None \<Rightarrow> 0
      | Some i \<Rightarrow> if i < length (sockets w) then length (script (sockets w ! i)) else 0)"

lemma queueMessage_pending_work: "pending_work (queueMessage m w) \<le> pending_work w + 1"
  by (simp add: queueMessage_def pending_work_def log_line_def split: option.splits)

lemma send_pending_work:
  assumes "send m w = Returned w'"
  shows "pending_work w' \<le> pending_work w + (if isConnected w then 0 else 1)"
  using assms
  by (auto simp: send_def serialize_def isConnected_def getConnectionState_def ws_send_def
      queueMessage_def pending_work_def log_line_def
      split: sum.splits if_splits option.splits prod.splits ready_state.splits list.splits
        message.splits)

text \<open>
  \<open>processMessageQueue\<close>: while the queue is not empty and the transport is open,
  \<open>shift\<close> the first message and, if it is truthy, \<open>send\<close> it. What \<open>send\<close> raises
  leaves the loop.
\<close>

function processMessageQueue :: "world \<Rightarrow> outcome" where
  "processMessageQueue w =
     (if messageQueue w \<noteq> [] \<and> isConnected w
      then (let message = hd (messageQueue w);
                w1 = w\<lparr>messageQueue := tl (messageQueue w)\<rparr>
            in if truthy message
               then (case send message w1 of
                       Returned w2 \<Rightarrow> processMessageQueue w2
                     | Raised e w2 \<Rightarrow> Raised e w2)
               else processMessageQueue w1)
      else Returned w)"
  by pat_completeness auto

lemma shift_pending_work:
  "messageQueue w \<noteq> [] \<Longrightarrow>
   pending_work (w\<lparr>messageQueue := tl (messageQueue w)\<rparr>) < pending_work w"
  by (cases "messageQueue w") (simp_all add: pending_work_def split: option.splits)

lemma shift_isConnected:
  "isConnected (w\<lparr>messageQueue := q\<rparr>) = isConnected w"
  by (simp add: isConnected_def getConnectionState_def split: option.splits)

termination processMessageQueue
proof (relation "measure pending_work")
  show "wf (measure pending_work)" by simp
next
  fix w message w1 w2
  assume a: "messageQueue w \<noteq> [] \<and> isConnected w"
    and m: "message = hd (messageQueue w)"
    and w1: "w1 = w\<lparr>messageQueue := tl (messageQueue w)\<rparr>"
    and s: "send message w1 = Returned w2"
  have "isConnected w1" using a w1 by (simp add: shift_isConnected)
  then have "pending_work w2 \<le> pending_work w1" using send_pending_work [OF s] by simp
  moreover have "pending_work w1 < pending_work w" using a w1 by (simp add: shift_pending_work)
  ultimately show "(w2, w) \<in> measure pending_work" by simp
next
  fix w message w1
  assume "messageQueue w \<noteq> [] \<and> isConnected w"
    and "w1 = w\<lparr>messageQueue := tl (messageQueue w)\<rparr>"
  then show "(w1, w) \<in> measure pending_work" by (simp add: shift_pending_work)
qed

declare processMessageQueue.simps [simp del]

subsection \<open>Health monitor, reconnection scheduler, lifecycle\<close>

definition stopHealthChecks :: "world \<Rightarrow> world" where
  "stopHealthChecks w =
     (case healthCheckTimer w of
        Some t \<Rightarrow> (clearTimer t w)\<lparr>healthCheckTimer := None\<rparr>
      | None \<Rightarrow> w)"

definition startHealthChecks :: "world \<Rightarrow> world" where
  "startHealthChecks w =
     (let w1 = stopHealthChecks w;
          (t, w2) = setInterval HealthInterval (HEALTH_CHECK_INTERVAL w1) w1
      in w2\<lparr>healthCheckTimer := Some t\<rparr>)"

text \<open>
  \<open>Math.min(RECONNECT_INTERVAL * Math.pow(1.5, reconnectCount), MAX_BACKOFF_DELAY)\<close>.
  The powers of 1.5 met here are dyadic fractions that a double holds exactly, and
  beyond the cap the minimum is the cap, so the real number is the double.
\<close>

definition backoffDelay :: "nat \<Rightarrow> real" where
  "backoffDelay n = min (RECONNECT_INTERVAL * (3 / 2) ^ n) MAX_BACKOFF_DELAY"

definition calculateBackoffDelay :: "world \<Rightarrow> real" where
  "calculateBackoffDelay w = backoffDelay (reconnectCount w)"

definition checkRateLimit :: "world \<Rightarrow> bool \<times> world" where
  "checkRateLimit w =
     (let w1 = (if now w - timestamp (rateLimitCounter w) > RATE_LIMIT_RESET
                then w\<lparr>rateLimitCounter := \<lparr>timestamp = now w, count = 0\<rparr>\<rparr>
                else w)
      in if count (rateLimitCounter w1) \<ge> MAX_RATE_LIMIT_ATTEMPTS
         then (False, log_line ''Rate limit exceeded for reconnection attempts'' Error w1)
         else (True, w1\<lparr>rateLimitCounter :=
                 (rateLimitCounter w1)\<lparr>count := count (rateLimitCounter w1) + 1\<rparr>\<rparr>))"

definition handleError :: "world \<Rightarrow> world" where
  "handleError w = (log_line ''Connection error: ${error}'' Error w)\<lparr>isReconnecting := False\<rparr>"

text \<open>
  \<open>connect\<close>. The constructor of the transport takes the next entry of \<open>upcoming\<close>:
  it raises, or it yields a socket in state CONNECTING with the given script; with no
  entry left it yields a socket with no script. The four handlers are bound to the
  service itself, so every socket once constructed keeps reporting to it.
\<close>

definition new_socket :: "send_effect list \<Rightarrow> socket" where
  "new_socket es = \<lparr>readyState = CONNECTING, sent = [], script = es\<rparr>"

definition construct_transport :: "send_effect list \<Rightarrow> world \<Rightarrow> world" where
  "construct_transport es w =
     w\<lparr>ws := Some (length (sockets w)),
       sockets := sockets w @ [new_socket es],
       connectionStartTime := now w,
       isReconnecting := True,
       isInitialized := True\<rparr>"

definition connect :: "world \<Rightarrow> world" where
  "connect w =
     (if isReconnecting w \<or> isConnected w then w
      else if \<not> hasWindow w then w
      else (case checkRateLimit w of
              (False, w1) \<Rightarrow> w1
            | (True, w1) \<Rightarrow>
                (case upcoming w1 of
                   [] \<Rightarrow> construct_transport [] w1
                 | CtorOk es # ps \<Rightarrow> construct_transport es (w1\<lparr>upcoming := ps\<rparr>)
                 | CtorThrows # ps \<Rightarrow>
                     handleError
                       (log_line ''WebSocket construction failed: ${error}'' Error
                          (w1\<lparr>upcoming := ps\<rparr>)))))"

definition handleOpen :: "world \<Rightarrow> outcome" where
  "handleOpen w =
     processMessageQueue
       (startHealthChecks
          ((log_line ''Connection established'' Info w)
             \<lparr>isReconnecting := False,
              reconnectCount := 0,
              missedPings := 0,
              lastPongTime := now w,
              lastMessageTime := now w\<rparr>))"

text \<open>
  \<open>attemptReconnect\<close>: the timer takes whole milliseconds, so the delay is
  truncated; the identity of the new timer overwrites the field without clearing
  the timer it held.
\<close>

definition attemptReconnect :: "world \<Rightarrow> world" where
  "attemptReconnect w =
     (if reconnectCount w < MAX_RECONNECT_ATTEMPTS
      then (let w1 = w\<lparr>reconnectCount := reconnectCount w + 1\<rparr>;
                delay = calculateBackoffDelay w1;
                (t, w2) = setTimeout ReconnectTimeout \<lfloor>delay\<rfloor> w1
            in w2\<lparr>reconnectTimer := Some t\<rparr>)
      else w)"

definition handleClose :: "world \<Rightarrow> world" where
  "handleClose w =
     attemptReconnect
       ((stopHealthChecks
           (log_line ''Connection closed after ${connectionDuration}ms. Code: ${event.code}, Reason: ${event.reason}'' Warn w))
          \<lparr>isReconnecting := False\<rparr>)"

definition disconnect :: "world \<Rightarrow> world" where
  "disconnect w =
     (let w1 = stopHealthChecks w;
          w2 = (case reconnectTimer w1 of
                  Some t \<Rightarrow> (clearTimer t w1)\<lparr>reconnectTimer := None\<rparr>
                | None \<Rightarrow> w1)
      in case ws w2 of
           Some i \<Rightarrow> w2\<lparr>sockets := (sockets w2)[i := ws_close (sockets w2 ! i)], ws := None\<rparr>
         | None \<Rightarrow> w2)"

definition reconnect :: "world \<Rightarrow> world" where
  "reconnect w = connect ((disconnect w)\<lparr>reconnectCount := 0\<rparr>)"

definition ping :: message where
  "ping = Object (JsonText ''{\"action\":\"ping\"}'')"

definition performHealthCheck :: "world \<Rightarrow> outcome" where
  "performHealthCheck w =
     (let timeSinceLastPong = now w - lastPongTime w;
          w1 = (if timeSinceLastPong > HEALTH_CHECK_TIMEOUT w
                then log_line ''Missed ping response. Strike ${this.missedPings}/${this.MAX_MISSED_PINGS}'' Warn
                       (w\<lparr>missedPings := missedPings w + 1\<rparr>)
                else w)
      in if timeSinceLastPong > HEALTH_CHECK_TIMEOUT w \<and> missedPings w1 \<ge> MAX_MISSED_PINGS
         then Returned (reconnect
                (log_line ''Connection degraded, initiating reconnect...'' Error w1))
         else if isConnected w1
         then send ping (log_line ''Sending ping...'' Info w1)
         else Returned w1)"

definition checkZombieConnection :: "world \<Rightarrow> world" where
  "checkZombieConnection w =
     (if isConnected w \<and> now w - lastMessageTime w > ZOMBIE_CONNECTION_TIMEOUT
      then reconnect (log_line ''Zombie connection detected, reconnecting...'' Warn w)
      else w)"

definition handleWindowFocus :: "world \<Rightarrow> world" where
  "handleWindowFocus w =
     (if ws w = None \<or> \<not> isConnected w
      then checkZombieConnection (log_line ''Window focused, checking connection...'' Info w)
      else w)"

text \<open>The argument is the test \<open>document.visibilityState === "visible"\<close>.\<close>

definition handleVisibilityChange :: "bool \<Rightarrow> world \<Rightarrow> world" where
  "handleVisibilityChange visible w = (if visible then checkZombieConnection w else w)"

definition handleNetworkChange :: "bool \<Rightarrow> world \<Rightarrow> world" where
  "handleNetworkChange isOnline w =
     (if isOnline
      then reconnect (log_line ''Network online, attempting reconnect...'' Info w)
      else disconnect (log_line ''Network offline, disconnecting...'' Warn w))"

definition adjustForPoorConnection :: "world \<Rightarrow> world" where
  "adjustForPoorConnection w =
     log_line ''Adjusted for poor connection'' Warn
       (w\<lparr>connectionQuality := Poor, HEALTH_CHECK_INTERVAL := 45000,
          HEALTH_CHECK_TIMEOUT := 10000\<rparr>)"

definition adjustForGoodConnection :: "world \<Rightarrow> world" where
  "adjustForGoodConnection w =
     log_line ''Adjusted for good connection'' Info
       (w\<lparr>connectionQuality := Good, HEALTH_CHECK_INTERVAL := 30000,
          HEALTH_CHECK_TIMEOUT := 5000\<rparr>)"

text \<open>
  The arguments are \<open>connection?.effectiveType\<close> and \<open>connection?.downlink\<close>; a
  comparison with an absent downlink is false.
\<close>

definition handleNetworkQualityChange :: "string option \<Rightarrow> real option \<Rightarrow> world \<Rightarrow> world" where
  "handleNetworkQualityChange effectiveType downlink w =
     (let w1 = log_line ''Network quality changed: ${effectiveType}, Downlink: ${downlink}Mbps'' Info w
      in if effectiveType = Some ''slow-2g'' \<or> effectiveType = Some ''2g'' \<or>
            (case downlink of Some d \<Rightarrow> d < 1 / 2 | None \<Rightarrow> False)
         then adjustForPoorConnection w1
         else if (case downlink of Some d \<Rightarrow> d > 3 / 2 | None \<Rightarrow> False)
         then adjustForGoodConnection w1
         else w1)"

subsection \<open>Inbound messages and listeners\<close>

definition addMessageListener :: "listener \<Rightarrow> world \<Rightarrow> world" where
  "addMessageListener l w =
     (if l \<in> set (listeners w) then w else w\<lparr>listeners := listeners w @ [l]\<rparr>)"

definition removeMessageListener :: "listener \<Rightarrow> world \<Rightarrow> world" where
  "removeMessageListener l w = w\<lparr>listeners := filter (\<lambda>x. x \<noteq> l) (listeners w)\<rparr>"

text \<open>
  A listener is called with the event; when it raises, the error is logged and the
  next listener is called. What a listener does outside the service is not part of
  the model.
\<close>

fun notify :: "listener list \<Rightarrow> world \<Rightarrow> world" where
  "notify [] w = w"
| "notify (l # ls) w =
     notify ls (if throws l then log_line ''Error in message listener: ${error}'' Error w else w)"

definition notifyListeners :: "world \<Rightarrow> world" where
  "notifyListeners w = notify (listeners w) w"

definition handlePong :: "world \<Rightarrow> world" where
  "handlePong w =
     log_line ''Pong received, connection healthy'' Info
       (w\<lparr>lastPongTime := now w, missedPings := 0\<rparr>)"

definition inboundSize :: "inbound \<Rightarrow> nat" where
  "inboundSize d = (case d of ArrayBuffer n \<Rightarrow> n | TextFrame n p \<Rightarrow> n * 2)"

definition handleMessage :: "inbound \<Rightarrow> world \<Rightarrow> world" where
  "handleMessage d w =
     (let messageSize = inboundSize d;
          w1 = (if int messageSize > 1024 * 1024
                then log_line ''Large message received: ${messageSize}MB'' Warn w else w);
          w2 = w1\<lparr>lastMessageTime := now w1,
                  rxCount := rxCount w1 + 1,
                  rxBytes := rxBytes w1 + messageSize\<rparr>
      in case d of
           ArrayBuffer n \<Rightarrow> log_line ''Received binary message of size: ${data.byteLength}'' Info w2
         | TextFrame n Malformed \<Rightarrow>
             (log_line ''Error processing message: ${error}'' Error w2)
               \<lparr>failureRate := failureRate w2 + 1\<rparr>
         | TextFrame n PongAction \<Rightarrow> handlePong w2
         | TextFrame n Payload \<Rightarrow> notifyListeners w2)"

subsection \<open>Telemetry and resource guard\<close>

definition debugMemoryUsage :: "world \<Rightarrow> world" where
  "debugMemoryUsage w = log_line ''Debug Memory Information:'' Info w"

definition checkForMemoryLeaks :: "world \<Rightarrow> world" where
  "checkForMemoryLeaks w =
     (let currentMemory = getMemoryUsage w;
          d = memoryLeakDetection w;
          w1 = (if currentMemory > lastMemoryUsage d
                then (let w2 = w\<lparr>memoryLeakDetection := d\<lparr>increasingCount := increasingCount d + 1\<rparr>\<rparr>
                      in if increasingCount (memoryLeakDetection w2) \<ge> 5
                         then debugMemoryUsage
                                (log_line ''Potential memory leak detected! Memory has increased ${this.memoryLeakDetection.increasingCount} times in a row.'' Warn w2)
                         else w2)
                else w\<lparr>memoryLeakDetection := d\<lparr>increasingCount := 0\<rparr>\<rparr>)
      in w1\<lparr>memoryLeakDetection :=
              (memoryLeakDetection w1)\<lparr>lastMemoryUsage := currentMemory,
                                        checkCount := checkCount (memoryLeakDetection w1) + 1\<rparr>\<rparr>)"

text \<open>\<open>slice(-MAX_QUEUE_SIZE / 2)\<close> keeps the last fifty entries.\<close>

definition cleanupResources :: "world \<Rightarrow> world" where
  "cleanupResources w =
     (let w1 = (if length (messageQueue w) > MAX_QUEUE_SIZE div 2
                then log_line ''Message queue trimmed due to memory constraints'' Warn
                       (w\<lparr>messageQueue :=
                            drop (length (messageQueue w) - MAX_QUEUE_SIZE div 2) (messageQueue w)\<rparr>)
                else w)
      in if length (listeners w1) > 100
         then log_line ''Too many listeners detected, consider cleaning up'' Warn w1
         else w1)"

text \<open>
  The size of the queue as the report measures it: two bytes for each unit of a
  string, and of the JSON text of an object; \<open>JSON.stringify\<close> may raise.
\<close>

fun queueSize :: "message list \<Rightarrow> nat \<Rightarrow> exn + nat" where
  "queueSize [] sz = Inr sz"
| "queueSize (msg # msgs) sz =
     (case msg of
        Text s \<Rightarrow> queueSize msgs (sz + length s * 2)
      | Object ob \<Rightarrow>
          (case JSON_stringify ob of
             Inl e \<Rightarrow> Inl e
           | Inr s \<Rightarrow> queueSize msgs (sz + length s * 2)))"

text \<open>
  The report measures the queue, the listeners (1024 bytes each) and the JSON text
  of the metrics, writes one console line, and warns when the heap reading exceeds
  what it measured by more than 230 MiB.
\<close>

definition logPerformanceReport :: "world \<Rightarrow> outcome" where
  "logPerformanceReport w =
     (let totalBefore = getMemoryUsage w
      in case queueSize (messageQueue w) 0 of
           Inl e \<Rightarrow> Raised e w
         | Inr queue \<Rightarrow>
             (let measuredMemory =
                    int (length (listeners w)) * 1024 + int queue + int (metricsJsonLength w) * 2;
                  other = totalBefore - measuredMemory;
                  w1 = log_line ''Performance Report:'' Info w
              in Returned
                   (if other > 230 * 1024 * 1024
                    then log_line ''Warning: High unaccounted memory usage: ${other}MB'' Warn w1
                    else w1)))"

definition checkPerformance :: "world \<Rightarrow> outcome" where
  "checkPerformance w =
     (let w1 = (if getMemoryUsage w > MAX_MEMORY_USAGE
                then cleanupResources
                       (log_line ''Memory usage exceeded threshold, cleaning up resources'' Warn w)
                else w)
      in logPerformanceReport (w1\<lparr>txCount := 0, rxCount := 0\<rparr>))"

definition periodicCleanup :: "world \<Rightarrow> world" where
  "periodicCleanup w =
     log_line ''Periodic cleanup completed. Current listeners: ${this.listeners.size}'' Info
       (w\<lparr>txBytes := 0, rxBytes := 0, txCount := 0, rxCount := 0, failureRate := 0\<rparr>)"

definition startPerformanceMonitoring :: "world \<Rightarrow> world" where
  "startPerformanceMonitoring w =
     (let (t, w1) = setInterval PerformanceInterval PERFORMANCE_CHECK_INTERVAL w
      in w1\<lparr>performanceMonitor := Some t\<rparr>)"

definition stopPerformanceMonitoring :: "world \<Rightarrow> world" where
  "stopPerformanceMonitoring w =
     (case performanceMonitor w of
        Some t \<Rightarrow> (clearTimer t w)\<lparr>performanceMonitor := None\<rparr>
      | None \<Rightarrow> w)"

definition cleanupConnection :: "world \<Rightarrow> world" where
  "cleanupConnection w = disconnect (stopPerformanceMonitoring w)"

subsection \<open>The service as a reactive system\<close>

text \<open>
  The field initialisers and the constructor, at time \<open>t0\<close>: in a browser the
  telemetry tick and the periodic cleanup are started at once. The JSON text of the
  initial metrics object has 81 characters.
\<close>

definition init :: "int \<Rightarrow> bool \<Rightarrow> int option \<Rightarrow> ctor_plan list \<Rightarrow> world" where
  "init t0 win heap plan =
     (let w = \<lparr>ws = None, reconnectTimer = None, healthCheckTimer = None,
               performanceMonitor = None, messageQueue = [], listeners = [],
               reconnectCount = 0, missedPings = 0, lastPongTime = t0,
               lastMessageTime = t0, connectionStartTime = 0, isInitialized = False,
               isReconnecting = False, connectionQuality = Good,
               HEALTH_CHECK_INTERVAL = 30000, HEALTH_CHECK_TIMEOUT = 5000,
               rateLimitCounter = \<lparr>timestamp = t0, count = 0\<rparr>,
               txBytes = 0, rxBytes = 0, txCount = 0, rxCount = 0, failureRate = 0,
               memoryLeakDetection = \<lparr>lastMemoryUsage = 0, checkCount = 0, increasingCount = 0\<rparr>,
               now = t0, hasWindow = win, usedJSHeapSize = heap, metricsJsonLength = 81,
               upcoming = plan,
               sockets = [], timers = [], nextTimer = 0, console = []\<rparr>
      in if win
         then snd (setInterval CleanupInterval (5 * 60 * 1000) (startPerformanceMonitoring w))
         else w)"

text \<open>
  Everything that can happen to the service: a call of its public interface, an
  event of a transport it constructed, a timer that fires, a signal of the window,
  and in between a move of the clock (\<open>Date.now()\<close> is wall-clock time, in
  milliseconds) or a change of the heap reading or of the length of the metrics'
  JSON text.
\<close>

datatype event =
    Connect | Disconnect | Reconnect | Send message
  | AddMessageListener listener | RemoveMessageListener listener
  | SockOpen nat | SockClose nat | SockError nat | SockMessage nat inbound
  | TimerFire nat | Advance int | HeapSample "int option" | MetricsText nat
  | Online | Offline | Focus | VisibilityChange bool | BeforeUnload
  | NetworkQualityChange "string option" "real option"

definition set_readyState :: "nat \<Rightarrow> ready_state \<Rightarrow> world \<Rightarrow> world" where
  "set_readyState i r w = w\<lparr>sockets := (sockets w)[i := (sockets w ! i)\<lparr>readyState := r\<rparr>]\<rparr>"

definition callback :: "timer_kind \<Rightarrow> world \<Rightarrow> outcome" where
  "callback k w =
     (case k of
        ReconnectTimeout \<Rightarrow>
          Returned (connect (log_line ''Reconnecting... Attempt ${this.reconnectCount}'' Info w))
      | HealthInterval \<Rightarrow> performHealthCheck w
      | PerformanceInterval \<Rightarrow>
          (case checkPerformance w of
             Returned w1 \<Rightarrow> Returned (checkForMemoryLeaks w1)
           | Raised e w1 \<Rightarrow> Raised e w1)
      | CleanupInterval \<Rightarrow> Returned (periodicCleanup w))"

text \<open>
  A pending timer fires once its time has come: a timeout is then no longer
  pending, an interval is due again one period later; then its callback runs.
\<close>

definition fire :: "nat \<Rightarrow> world \<Rightarrow> outcome" where
  "fire t w =
     (case find (\<lambda>x. tid x = t) (timers w) of
        None \<Rightarrow> Returned w
      | Some x \<Rightarrow>
          if now w < due x then Returned w
          else callback (kind x)
                 (case period x of
                    None \<Rightarrow> clearTimer t w
                  | Some p \<Rightarrow>
                      w\<lparr>timers := map (\<lambda>y. if tid y = t then y\<lparr>due := due y + p\<rparr> else y)
                                      (timers w)\<rparr>))"

text \<open>
  A transport raises \<open>open\<close> while connecting, \<open>close\<close> once unless already closed,
  \<open>error\<close> while not closed and \<open>message\<close> while open. The signals of the window
  reach the service only where the constructor registered for them.
\<close>

definition step :: "event \<Rightarrow> world \<Rightarrow> outcome" where
  "step e w =
     (case e of
        Connect \<Rightarrow> Returned (connect w)
      | Disconnect \<Rightarrow> Returned (disconnect w)
      | Reconnect \<Rightarrow> Returned (reconnect w)
      | Send m \<Rightarrow> send m w
      | AddMessageListener l \<Rightarrow> Returned (addMessageListener l w)
      | RemoveMessageListener l \<Rightarrow> Returned (removeMessageListener l w)
      | SockOpen i \<Rightarrow>
          if i < length (sockets w) \<and> readyState (sockets w ! i) = CONNECTING
          then handleOpen (set_readyState i OPEN w) else Returned w
      | SockClose i \<Rightarrow>
          if i < length (sockets w) \<and> readyState (sockets w ! i) \<noteq> CLOSED
          then Returned (handleClose (set_readyState i CLOSED w)) else Returned w
      | SockError i \<Rightarrow>
          if i < length (sockets w) \<and> readyState (sockets w ! i) \<noteq> CLOSED
          then Returned (handleError w) else Returned w
      | SockMessage i d \<Rightarrow>
          if i < length (sockets w) \<and> readyState (sockets w ! i) = OPEN
          then Returned (handleMessage d w) else Returned w
      | TimerFire t \<Rightarrow> fire t w
      | Advance d \<Rightarrow> Returned (w\<lparr>now := now w + d\<rparr>)
      | HeapSample h \<Rightarrow> Returned (w\<lparr>usedJSHeapSize := h\<rparr>)
      | MetricsText n \<Rightarrow> Returned (w\<lparr>metricsJsonLength := n\<rparr>)
      | Online \<Rightarrow> Returned (if hasWindow w then handleNetworkChange True w else w)
      | Offline \<Rightarrow> Returned (if hasWindow w then handleNetworkChange False w else w)
      | Focus \<Rightarrow> Returned (if hasWindow w then handleWindowFocus w else w)
      | VisibilityChange v \<Rightarrow> Returned (if hasWindow w then handleVisibilityChange v w else w)
      | BeforeUnload \<Rightarrow> Returned (if hasWindow w then cleanupConnection w else w)
      | NetworkQualityChange et dl \<Rightarrow>
          Returned (if hasWindow w then handleNetworkQualityChange et dl w else w))"

text \<open>
  A run: an exception that leaves a handler ends that handler only; the service
  goes on from the state it was left in.
\<close>

fun run :: "event list \<Rightarrow> world \<Rightarrow> world" where
  "run [] w = w"
| "run (e # es) w = run es (state_of (step e w))"

section \<open>Scenarios\<close>

text \<open>
  A service freshly constructed in a browser at time 0, with no heap reading and a
  transport that behaves as the WebSocket API says. Its constructor started the
  telemetry tick (timer 0) and the periodic cleanup (timer 1).
\<close>

definition fresh :: world where
  "fresh = init 0 True None []"

text \<open>Telemetry ticks one period apart, each after the heap reading has changed.\<close>

definition leak_ticks :: "int list \<Rightarrow> event list" where
  "leak_ticks hs = concat (map (\<lambda>h. [HeapSample (Some h), Advance 60000, TimerFire 0]) hs)"

text \<open>
  An open connection on which nothing has arrived for longer than the zombie
  timeout, and whose health check has not run yet.
\<close>

definition zombie :: world where
  "zombie = run [Connect, SockOpen 0, Advance 90001] fresh"

text \<open>
  A service whose first connection attempt failed and whose backoff timer (timer 2)
  has fired: the attempt counter is 1 and a second transport is connecting.
\<close>

definition retrying :: world where
  "retrying = run [Connect, SockClose 0, Advance 4500, TimerFire 2] fresh"

text \<open>A disconnected service with a hundred messages queued.\<close>

definition full_queue :: world where
  "full_queue = run (replicate 100 (Send (Text ''x''))) fresh"

text \<open>
  The two ways the attempt counter is set to zero: a transport that was connecting
  raises its open event, or the step calls \<open>reconnect()\<close> (the public call, the
  network-online handler, the health check at the missed-probe tolerance, zombie
  detection on a visibility change).
\<close>

definition opens :: "event \<Rightarrow> world \<Rightarrow> bool" where
  "opens e w =
     (case e of
        SockOpen i \<Rightarrow> i < length (sockets w) \<and> readyState (sockets w ! i) = CONNECTING
      | _ \<Rightarrow> False)"

definition invokes_reconnect :: "event \<Rightarrow> world \<Rightarrow> bool" where
  "invokes_reconnect e w =
     (case e of
        Reconnect \<Rightarrow> True
      | Online \<Rightarrow> hasWindow w
      | VisibilityChange v \<Rightarrow>
          hasWindow w \<and> v \<and> isConnected w \<and>
          now w - lastMessageTime w > ZOMBIE_CONNECTION_TIMEOUT
      | TimerFire t \<Rightarrow>
          (case find (\<lambda>x. tid x = t) (timers w) of
             None \<Rightarrow> False
           | Some x \<Rightarrow>
               due x \<le> now w \<and> kind x = HealthInterval \<and>
               now w - lastPongTime w > HEALTH_CHECK_TIMEOUT w \<and>
               missedPings w + 1 \<ge> MAX_MISSED_PINGS)
      | _ \<Rightarrow> False)"

text \<open>
  A service after ten connection attempts, each of which failed: the transport
  raised its error event and then its close event.
\<close>

definition limited :: world where
  "limited = run (concat (map (\<lambda>k. [Connect, SockError k, SockClose k]) [0..<10])) fresh"

text \<open>The answers of the rate limiter to attempts made at the given times.\<close>

fun attempts :: "int list \<Rightarrow> world \<Rightarrow> bool list" where
  "attempts [] w = []"
| "attempts (t # ts) w =
     (case checkRateLimit (w\<lparr>now := t\<rparr>) of (ok, w') \<Rightarrow> ok # attempts ts w')"

text \<open>
  For the drain of the queue: the text a message is transmitted as; the messages
  that \<open>send\<close> lets into the queue and the drain does not skip (they serialise
  within the size limit and are truthy); what one accepted transmission does to an
  open transport; and how many of \<open>n\<close> queued messages are transmitted before a
  transport with the given script leaves the open state.
\<close>

definition wire_text :: "message \<Rightarrow> string" where
  "wire_text m = (case serialize m of Inr s \<Rightarrow> s | Inl e \<Rightarrow> [])"

definition queueable :: "message \<Rightarrow> bool" where
  "queueable m =
     (truthy m \<and> (case serialize m of Inr s \<Rightarrow> int (length s) \<le> MAX_MESSAGE_SIZE | Inl e \<Rightarrow> False))"

fun drain_count :: "send_effect list \<Rightarrow> nat \<Rightarrow> nat" where
  "drain_count es 0 = 0"
| "drain_count [] (Suc n) = Suc n"
| "drain_count (e # es) (Suc n) = (if state_after e = OPEN then Suc (drain_count es n) else 1)"

definition accept :: "string \<Rightarrow> socket \<Rightarrow> socket" where
  "accept str s =
     (case script s of
        [] \<Rightarrow> s\<lparr>sent := sent s @ [str]\<rparr>
      | e # es \<Rightarrow> s\<lparr>readyState := state_after e, sent := sent s @ [str], script := es\<rparr>)"

text \<open>
  Three messages queued while disconnected, the second one the empty string, and a
  transport that is connecting; and three messages queued before a transport that
  accepts two frames and starts closing with the second.
\<close>

definition skipped :: world where
  "skipped = run [Send (Text ''A''), Send (Text ''''), Send (Text ''B''), Connect] fresh"

definition interrupted :: world where
  "interrupted =
     run [Send (Text ''A''), Send (Text ''B''), Send (Text ''C''), Connect]
       (init 0 True None [CtorOk [SendEffect False OPEN, SendEffect False CLOSING]])"

text \<open>
  For the health monitor: all frames transmitted so far, on whatever transport; the
  pending health-check timers; and the bookkeeping under which the field
  \<open>healthCheckTimer\<close> names every pending health-check timer.
\<close>

definition transmitted :: "world \<Rightarrow> string list" where
  "transmitted w = concat (map sent (sockets w))"

definition health_timers_tracked :: "world \<Rightarrow> bool" where
  "health_timers_tracked w =
     (\<forall>t\<in>set (timers w). kind t = HealthInterval \<longrightarrow> healthCheckTimer w = Some (tid t))"

definition health_timers :: "world \<Rightarrow> timer list" where
  "health_timers w = filter (\<lambda>t. kind t = HealthInterval) (timers w)"

text \<open>
  An open connection whose first health tick (timer 2, at 30000 ms) counted one
  missed probe and sent a ping that was never answered, just before its second
  tick.
\<close>

definition degraded :: world where
  "degraded = run [Connect, SockOpen 0, Advance 30000, TimerFire 2, Advance 30000] fresh"

text \<open>
  No health check is scheduled: no health-check timer is pending and the service
  holds none. A pong frame is the one inbound message that touches the missed-probe
  counter. A run in which no transport opens and no pong arrives.
\<close>

definition health_checks_stopped :: "world \<Rightarrow> bool" where
  "health_checks_stopped w = (health_timers w = [] \<and> healthCheckTimer w = None)"

definition is_pong :: "event \<Rightarrow> bool" where
  "is_pong e = (case e of SockMessage i (TextFrame n PongAction) \<Rightarrow> True | _ \<Rightarrow> False)"

fun no_open :: "event list \<Rightarrow> world \<Rightarrow> bool" where
  "no_open [] w = True"
| "no_open (e # es) w = (\<not> opens e w \<and> \<not> is_pong e \<and> no_open es (state_of (step e w)))"

text \<open>
  The degraded connection after its second health tick, and a continuation in
  which the network stays down: the old transport and the new one close, 100
  seconds pass, the first retry (timer 3) constructs a third transport, which
  closes too.
\<close>

definition reconnected :: world where
  "reconnected = run [TimerFire 2] degraded"

definition still_down :: "event list" where
  "still_down = [SockClose 0, SockClose 1, Advance 100000, TimerFire 3, SockClose 2]"


section \<open>Backoff delay\<close>

lemma backoffDelay_mono: "m \<le> n \<Longrightarrow> backoffDelay m \<le> backoffDelay n"
proof -
  assume "m \<le> n"
  then have "(3 / 2 :: real) ^ m \<le> (3 / 2) ^ n"
    by (intro power_increasing) simp_all
  then show ?thesis
    by (simp add: backoffDelay_def RECONNECT_INTERVAL_def min_le_iff_disj)
qed

lemma backoffDelay_values:
  "backoffDelay 0 = 3000" "backoffDelay 1 = 4500" "backoffDelay (Suc 0) = 4500"
  "backoffDelay 2 = 6750" "backoffDelay 3 = 10125" "backoffDelay 4 = 15187.5"
  "backoffDelay 5 = 22781.25"
  by (simp_all add: backoffDelay_def RECONNECT_INTERVAL_def MAX_BACKOFF_DELAY_def power_divide)

lemma backoffDelay_floor:
  "\<lfloor>backoffDelay 4\<rfloor> = 15187" "\<lfloor>backoffDelay 5\<rfloor> = 22781"
  by (simp_all add: backoffDelay_values floor_eq_iff)

text \<open>
  Claim C4, as stated, fails: the delays for the counters 0 to 5 are not all whole
  milliseconds, so they are not exactly 3000, 4500, 6750, 10125, 15187, 22781.
\<close>

theorem backoff_whole_ms_counterexample:
  "\<not> (map (\<lambda>n. calculateBackoffDelay (fresh\<lparr>reconnectCount := n\<rparr>)) [0, 1, 2, 3, 4, 5]
       = [3000, 4500, 6750, 10125, 15187, 22781])"
  by (simp add: calculateBackoffDelay_def backoffDelay_values)

text \<open>
  Claim C4, amended: the backoff delay is \<open>min (3000 * 1.5 ^ attempt) 30000\<close>; it is
  monotonically non-decreasing in the attempt counter and never exceeds 30000 ms;
  for the counters 0 to 5 it is 3000, 4500, 6750, 10125, 15187.5 and 22781.25 ms,
  whose whole-millisecond parts (what the timer takes) are 3000, 4500, 6750, 10125,
  15187 and 22781.
\<close>

theorem backoff_capped_exponential:
  "calculateBackoffDelay w = min (3000 * (3 / 2) ^ reconnectCount w) 30000
   \<and> (reconnectCount w \<le> reconnectCount w' \<longrightarrow>
        calculateBackoffDelay w \<le> calculateBackoffDelay w')
   \<and> calculateBackoffDelay w \<le> 30000
   \<and> map backoffDelay [0, 1, 2, 3, 4, 5] = [3000, 4500, 6750, 10125, 15187.5, 22781.25]
   \<and> map (\<lambda>n. \<lfloor>backoffDelay n\<rfloor>) [0, 1, 2, 3, 4, 5] = [3000, 4500, 6750, 10125, 15187, 22781]"
proof -
  have a: "calculateBackoffDelay w = min (3000 * (3 / 2) ^ reconnectCount w) 30000"
    by (simp add: calculateBackoffDelay_def backoffDelay_def RECONNECT_INTERVAL_def
        MAX_BACKOFF_DELAY_def)
  have b: "reconnectCount w \<le> reconnectCount w' \<longrightarrow>
      calculateBackoffDelay w \<le> calculateBackoffDelay w'"
    by (simp add: calculateBackoffDelay_def backoffDelay_mono)
  have c: "calculateBackoffDelay w \<le> 30000"
    by (simp add: a)
  have d: "map backoffDelay [0, 1, 2, 3, 4, 5] = [3000, 4500, 6750, 10125, 15187.5, 22781.25]"
    by (simp add: backoffDelay_values)
  have e: "map (\<lambda>n. \<lfloor>backoffDelay n\<rfloor>) [0, 1, 2, 3, 4, 5]
      = [3000, 4500, 6750, 10125, 15187, 22781]"
    by (simp add: backoffDelay_floor) (simp add: backoffDelay_values)
  from a b c d e show ?thesis by blast
qed

text \<open>The amended claim C4 at the counters 1 and 2: 4500 ms, then 6750 ms.\<close>

theorem backoff_capped_exponential_witness:
  "reconnectCount (fresh\<lparr>reconnectCount := 1\<rparr>) \<le> reconnectCount (fresh\<lparr>reconnectCount := 2\<rparr>)
   \<and> calculateBackoffDelay (fresh\<lparr>reconnectCount := 1\<rparr>)
       \<le> calculateBackoffDelay (fresh\<lparr>reconnectCount := 2\<rparr>)
   \<and> calculateBackoffDelay (fresh\<lparr>reconnectCount := 2\<rparr>) \<le> 30000"
  using backoff_capped_exponential
    [of "fresh\<lparr>reconnectCount := 1\<rparr>" "fresh\<lparr>reconnectCount := 2\<rparr>"]
    backoff_capped_exponential
    [of "fresh\<lparr>reconnectCount := 2\<rparr>" "fresh\<lparr>reconnectCount := 2\<rparr>"]
  by simp

section \<open>Send\<close>

text \<open>
  Claim C3 (send never raises to its caller, whatever the message) does not hold of
  the code: sending an object that \<open>JSON.stringify\<close> rejects raises a
  \<open>TypeError\<close> to the caller, in every state, and leaves the state as it was. Any
  other message makes \<open>send\<close> return: it returns exactly when the message has a
  serialisation.
\<close>

theorem send_raises_on_unserializable:
  "send (Object Circular) w = Raised TypeError w
   \<and> (\<exists>w'. send m w = Returned w') = (\<exists>s. serialize m = Inr s)"
  by (auto simp: send_def serialize_def JSON_stringify_def Let_def
      split: sum.splits option.splits prod.splits message.splits js_object.splits)

section \<open>Leak heuristic\<close>

text \<open>
  Claim C9, as stated, fails: after five telemetry ticks in a row with a growing
  heap reading, the tick that warns leaves the streak at five, not at zero.
\<close>

theorem leak_streak_not_reset_counterexample:
  "\<not> (increasingCount (memoryLeakDetection (run (leak_ticks [1, 2, 3, 4, 5]) fresh)) = 0)"
  unfolding fresh_def by code_simp

text \<open>
  Claim C9, amended: on a telemetry tick the streak grows by one when the measured
  footprint is strictly greater than the previous measurement, and is set to zero
  otherwise; whenever the grown streak is at least five, the leak warning and the
  diagnostic dump are written, and the streak is kept (it is not reset by the
  warning, so every further growing tick warns again); the measurement becomes
  the previous one.
\<close>

theorem checkForMemoryLeaks_streak:
  "increasingCount (memoryLeakDetection (checkForMemoryLeaks w))
     = (if getMemoryUsage w > lastMemoryUsage (memoryLeakDetection w)
        then increasingCount (memoryLeakDetection w) + 1 else 0)
   \<and> console (checkForMemoryLeaks w)
     = console w @
       (if getMemoryUsage w > lastMemoryUsage (memoryLeakDetection w)
           \<and> increasingCount (memoryLeakDetection w) + 1 \<ge> 5
        then [(Warn, ''Potential memory leak detected! Memory has increased ${this.memoryLeakDetection.increasingCount} times in a row.''),
              (Info, ''Debug Memory Information:'')]
        else [])
   \<and> lastMemoryUsage (memoryLeakDetection (checkForMemoryLeaks w)) = getMemoryUsage w"
  by (simp add: checkForMemoryLeaks_def Let_def debugMemoryUsage_def log_line_def)

text \<open>
  The amended claim C9 on the sixth growing tick in a row: the streak goes from
  five to six and the warning is written again.
\<close>

theorem checkForMemoryLeaks_streak_witness:
  "increasingCount (memoryLeakDetection
      (checkForMemoryLeaks (run (leak_ticks [1, 2, 3, 4, 5] @ [HeapSample (Some 6)]) fresh))) = 6
   \<and> map fst (drop
        (length (console (run (leak_ticks [1, 2, 3, 4, 5] @ [HeapSample (Some 6)]) fresh)))
        (console (checkForMemoryLeaks
           (run (leak_ticks [1, 2, 3, 4, 5] @ [HeapSample (Some 6)]) fresh)))) = [Warn, Info]"
proof -
  let ?w = "run (leak_ticks [1, 2, 3, 4, 5] @ [HeapSample (Some 6)]) fresh"
  have a: "getMemoryUsage ?w = 6" unfolding fresh_def by code_simp
  have b: "lastMemoryUsage (memoryLeakDetection ?w) = 5" unfolding fresh_def by code_simp
  have c: "increasingCount (memoryLeakDetection ?w) = 5" unfolding fresh_def by code_simp
  show ?thesis using checkForMemoryLeaks_streak [of ?w] by (simp add: a b c)
qed

section \<open>Zombie detection\<close>

lemma zombie_facts:
  "isConnected zombie" "now zombie - lastMessageTime zombie = 90001"
  "missedPings zombie = 0" "hasWindow zombie"
  unfolding zombie_def fresh_def by code_simp+

lemma handleWindowFocus_connected: "isConnected w \<Longrightarrow> handleWindowFocus w = w"
  by (simp add: handleWindowFocus_def isConnected_def getConnectionState_def
      split: option.splits)

lemma handleWindowFocus_console:
  "handleWindowFocus w = w \<or>
   handleWindowFocus w = log_line ''Window focused, checking connection...'' Info w"
  by (simp add: handleWindowFocus_def checkZombieConnection_def isConnected_def
      getConnectionState_def log_line_def split: option.splits)

text \<open>
  Claim C10 (the zombie check is reachable from window focus and from a visibility
  change) does not hold of the code for window focus. On an open connection that
  has been silent for 90001 ms, with no missed probe, the focus signal changes
  nothing, while the visibility signal closes the transport and constructs a new
  one: \<open>handleWindowFocus\<close> calls the zombie check only when the transport is not
  open, and the zombie check acts only when it is.
\<close>

theorem focus_never_reaches_zombie_check:
  "isConnected zombie
   \<and> now zombie - lastMessageTime zombie > ZOMBIE_CONNECTION_TIMEOUT
   \<and> missedPings zombie = 0
   \<and> step Focus zombie = Returned zombie
   \<and> map readyState (sockets (state_of (step (VisibilityChange True) zombie)))
       = [CLOSING, CONNECTING]"
proof -
  have "step Focus zombie = Returned zombie"
    by (simp add: step_def zombie_facts handleWindowFocus_connected)
  moreover have "map readyState (sockets (state_of (step (VisibilityChange True) zombie)))
      = [CLOSING, CONNECTING]"
    unfolding zombie_def fresh_def by code_simp
  ultimately show ?thesis
    by (simp add: zombie_facts ZOMBIE_CONNECTION_TIMEOUT_def)
qed

section \<open>Disconnect and pending timers\<close>

text \<open>
  Claim C1 (after disconnect, no passage of time leads to a reconnect attempt, and
  the close event of the transport that disconnect closed schedules no reconnect
  timer) does not hold of the code. Connect, let the transport open, disconnect:
  only the two telemetry timers are pending. Then the transport raises the close
  event of that \<open>close()\<close>: the close handler is still bound, and a reconnect timer
  (timer 3, due after 4500 ms) is pending. After 4500 ms it fires and a second
  transport is constructed.
\<close>

theorem disconnect_close_event_reconnects:
  "map kind (timers (run [Connect, SockOpen 0, Disconnect] fresh))
     = [PerformanceInterval, CleanupInterval]
   \<and> map (\<lambda>t. (tid t, kind t, due t))
        (timers (run [Connect, SockOpen 0, Disconnect, SockClose 0] fresh))
     = [(0, PerformanceInterval, 60000), (1, CleanupInterval, 300000),
        (3, ReconnectTimeout, 4500)]
   \<and> map readyState
        (sockets (run [Connect, SockOpen 0, Disconnect, SockClose 0, Advance 4500, TimerFire 3]
           fresh))
     = [CLOSED, CONNECTING]
   \<and> ws (run [Connect, SockOpen 0, Disconnect, SockClose 0, Advance 4500, TimerFire 3] fresh)
     = Some 1"
  unfolding fresh_def by code_simp

section \<open>What each operation leaves unchanged\<close>

named_theorems frame

lemma log_line_fields [frame]:
  "messageQueue (log_line m t w) = messageQueue w"
  "reconnectCount (log_line m t w) = reconnectCount w"
  by (simp_all add: log_line_def)

lemma clearTimer_fields [frame]:
  "messageQueue (clearTimer i w) = messageQueue w"
  "reconnectCount (clearTimer i w) = reconnectCount w"
  by (simp_all add: clearTimer_def)

lemma stopHealthChecks_fields [frame]:
  "messageQueue (stopHealthChecks w) = messageQueue w"
  "reconnectCount (stopHealthChecks w) = reconnectCount w"
  by (simp_all add: stopHealthChecks_def frame split: option.splits)

lemma startHealthChecks_fields [frame]:
  "messageQueue (startHealthChecks w) = messageQueue w"
  "reconnectCount (startHealthChecks w) = reconnectCount w"
  by (simp_all add: startHealthChecks_def setInterval_def Let_def frame)

lemma checkRateLimit_fields [frame]:
  "messageQueue (snd (checkRateLimit w)) = messageQueue w"
  "reconnectCount (snd (checkRateLimit w)) = reconnectCount w"
  by (simp_all add: checkRateLimit_def Let_def frame)

lemma handleError_fields [frame]:
  "messageQueue (handleError w) = messageQueue w"
  "reconnectCount (handleError w) = reconnectCount w"
  by (simp_all add: handleError_def frame)

lemma construct_fields [frame]:
  "messageQueue (construct_transport es w) = messageQueue w"
  "reconnectCount (construct_transport es w) = reconnectCount w"
  by (simp_all add: construct_transport_def)

lemma connect_fields [frame]:
  "messageQueue (connect w) = messageQueue w"
  "reconnectCount (connect w) = reconnectCount w"
proof -
  obtain ok w1 where c: "checkRateLimit w = (ok, w1)" by (cases "checkRateLimit w")
  have f: "messageQueue w1 = messageQueue w" "reconnectCount w1 = reconnectCount w"
    using checkRateLimit_fields [of w] by (simp_all add: c)
  show "messageQueue (connect w) = messageQueue w"
    by (cases ok) (simp_all add: connect_def c f frame split: list.splits ctor_plan.splits)
  show "reconnectCount (connect w) = reconnectCount w"
    by (cases ok) (simp_all add: connect_def c f frame split: list.splits ctor_plan.splits)
qed

lemma attemptReconnect_fields [frame]:
  "messageQueue (attemptReconnect w) = messageQueue w"
  "reconnectCount w \<le> reconnectCount (attemptReconnect w)"
  by (simp_all add: attemptReconnect_def setTimeout_def Let_def)

lemma handleClose_fields [frame]:
  "messageQueue (handleClose w) = messageQueue w"
  "reconnectCount w \<le> reconnectCount (handleClose w)"
proof -
  show "messageQueue (handleClose w) = messageQueue w"
    by (simp add: handleClose_def frame)
  have "reconnectCount ((stopHealthChecks (log_line ''Connection closed after ${connectionDuration}ms. Code: ${event.code}, Reason: ${event.reason}'' Warn w))\<lparr>isReconnecting := False\<rparr>) = reconnectCount w"
    by (simp add: frame)
  then show "reconnectCount w \<le> reconnectCount (handleClose w)"
    unfolding handleClose_def using attemptReconnect_fields(2) by metis
qed

lemma disconnect_fields [frame]:
  "messageQueue (disconnect w) = messageQueue w"
  "reconnectCount (disconnect w) = reconnectCount w"
  by (simp_all add: disconnect_def Let_def frame split: option.splits)

lemma reconnect_fields [frame]:
  "messageQueue (reconnect w) = messageQueue w"
  "reconnectCount (reconnect w) = 0"
  by (simp_all add: reconnect_def frame)

lemma queueMessage_fields [frame]:
  "reconnectCount (queueMessage m w) = reconnectCount w"
  by (simp add: queueMessage_def frame)

lemma queueMessage_length:
  "length (messageQueue w) \<le> MAX_QUEUE_SIZE \<Longrightarrow>
   length (messageQueue (queueMessage m w)) \<le> MAX_QUEUE_SIZE"
  by (simp add: queueMessage_def frame)

lemma queueMessage_full:
  "length (messageQueue w) = MAX_QUEUE_SIZE \<Longrightarrow>
   queueMessage m w = log_line ''Message queue overflow, dropping message'' Warn w"
  by (simp add: queueMessage_def)

lemma send_reconnectCount [frame]:
  "reconnectCount (state_of (send m w)) = reconnectCount w"
  by (simp add: send_def frame split: sum.splits option.splits prod.splits)

lemma send_length:
  "length (messageQueue w) \<le> MAX_QUEUE_SIZE \<Longrightarrow>
   length (messageQueue (state_of (send m w))) \<le> MAX_QUEUE_SIZE"
  by (auto simp: send_def frame intro!: queueMessage_length split: sum.splits option.splits prod.splits)

lemma processMessageQueue_preserves:
  assumes snd: "\<And>m w. P w \<Longrightarrow> P (state_of (send m w))"
    and shift: "\<And>w. P w \<Longrightarrow> P (w\<lparr>messageQueue := tl (messageQueue w)\<rparr>)"
  shows "P w \<Longrightarrow> P (state_of (processMessageQueue w))"
proof (induction w rule: processMessageQueue.induct)
  case (1 w)
  show ?case
  proof (cases "messageQueue w \<noteq> [] \<and> isConnected w")
    case False
    then have "processMessageQueue w = Returned w"
      by (subst processMessageQueue.simps) (simp only: if_False)
    with "1.prems" show ?thesis by simp
  next
    case True
    define m where "m = hd (messageQueue w)"
    define w1 where "w1 = w\<lparr>messageQueue := tl (messageQueue w)\<rparr>"
    have p1: "P w1" unfolding w1_def using "1.prems" by (rule shift)
    show ?thesis
    proof (cases "truthy m")
      case False
      have "processMessageQueue w = processMessageQueue w1"
        using True False by (subst processMessageQueue.simps) (simp add: m_def w1_def Let_def)
      moreover have "P (state_of (processMessageQueue w1))"
        using "1.IH"(2) [OF True m_def w1_def False p1] .
      ultimately show ?thesis by simp
    next
      case t: True
      show ?thesis
      proof (cases "send m w1")
        case (Returned w2)
        have "processMessageQueue w = processMessageQueue w2"
          using True t Returned
          by (subst processMessageQueue.simps) (simp add: m_def w1_def Let_def)
        moreover have "P w2" using snd [OF p1, of m] Returned by simp
        then have "P (state_of (processMessageQueue w2))"
          using "1.IH"(1) [OF True m_def w1_def t Returned] by simp
        ultimately show ?thesis by simp
      next
        case (Raised e w2)
        have "processMessageQueue w = Raised e w2"
          using True t Raised
          by (subst processMessageQueue.simps) (simp add: m_def w1_def Let_def)
        moreover have "P w2" using snd [OF p1, of m] Raised by simp
        ultimately show ?thesis by simp
      qed
    qed
  qed
qed

lemma processMessageQueue_reconnectCount [frame]:
  "reconnectCount (state_of (processMessageQueue w)) = reconnectCount w"
  using processMessageQueue_preserves [where P = "\<lambda>v. reconnectCount v = reconnectCount w" and w = w]
  by (simp add: frame)

lemma processMessageQueue_length:
  "length (messageQueue w) \<le> MAX_QUEUE_SIZE \<Longrightarrow>
   length (messageQueue (state_of (processMessageQueue w))) \<le> MAX_QUEUE_SIZE"
  using processMessageQueue_preserves
    [where P = "\<lambda>v. length (messageQueue v) \<le> MAX_QUEUE_SIZE" and w = w]
  by (simp add: send_length)

lemma handleOpen_fields:
  "reconnectCount (state_of (handleOpen w)) = 0"
  "length (messageQueue w) \<le> MAX_QUEUE_SIZE \<Longrightarrow>
   length (messageQueue (state_of (handleOpen w))) \<le> MAX_QUEUE_SIZE"
  by (simp_all add: handleOpen_def frame processMessageQueue_length)

lemma performHealthCheck_length:
  "length (messageQueue w) \<le> MAX_QUEUE_SIZE \<Longrightarrow>
   length (messageQueue (state_of (performHealthCheck w))) \<le> MAX_QUEUE_SIZE"
  by (simp add: performHealthCheck_def Let_def frame send_length)

lemma performHealthCheck_reconnectCount:
  "reconnectCount (state_of (performHealthCheck w)) =
     (if now w - lastPongTime w > HEALTH_CHECK_TIMEOUT w \<and> missedPings w + 1 \<ge> MAX_MISSED_PINGS
      then 0 else reconnectCount w)"
  by (simp add: performHealthCheck_def Let_def frame log_line_def)

lemma notify_fields [frame]:
  "messageQueue (notify ls w) = messageQueue w"
  "reconnectCount (notify ls w) = reconnectCount w"
  by (induction ls arbitrary: w) (simp_all add: frame)

lemma handleMessage_fields [frame]:
  "messageQueue (handleMessage d w) = messageQueue w"
  "reconnectCount (handleMessage d w) = reconnectCount w"
  by (simp_all add: handleMessage_def handlePong_def notifyListeners_def Let_def frame
      split: inbound.splits parsed.splits)

lemma checkForMemoryLeaks_fields [frame]:
  "messageQueue (checkForMemoryLeaks w) = messageQueue w"
  "reconnectCount (checkForMemoryLeaks w) = reconnectCount w"
  by (simp_all add: checkForMemoryLeaks_def debugMemoryUsage_def Let_def frame)

lemma cleanupResources_fields [frame]:
  "length (messageQueue (cleanupResources w)) \<le> length (messageQueue w)"
  "reconnectCount (cleanupResources w) = reconnectCount w"
  by (simp_all add: cleanupResources_def Let_def frame)

lemma logPerformanceReport_fields [frame]:
  "messageQueue (state_of (logPerformanceReport w)) = messageQueue w"
  "reconnectCount (state_of (logPerformanceReport w)) = reconnectCount w"
  by (simp_all add: logPerformanceReport_def Let_def frame split: sum.splits)

lemma checkPerformance_fields [frame]:
  "length (messageQueue (state_of (checkPerformance w))) \<le> length (messageQueue w)"
  "reconnectCount (state_of (checkPerformance w)) = reconnectCount w"
proof -
  show "length (messageQueue (state_of (checkPerformance w))) \<le> length (messageQueue w)"
    using cleanupResources_fields(1)
      [of "log_line ''Memory usage exceeded threshold, cleaning up resources'' Warn w"]
    by (simp add: checkPerformance_def Let_def frame)
  show "reconnectCount (state_of (checkPerformance w)) = reconnectCount w"
    by (simp add: checkPerformance_def Let_def frame)
qed

lemma telemetry_tick_state:
  "state_of (case r of Returned w1 \<Rightarrow> Returned (f w1) | Raised e w1 \<Rightarrow> Raised e w1)
   = (if (\<exists>v. r = Returned v) then f (state_of r) else state_of r)"
  by (cases r) simp_all

lemma periodicCleanup_fields [frame]:
  "messageQueue (periodicCleanup w) = messageQueue w"
  "reconnectCount (periodicCleanup w) = reconnectCount w"
  by (simp_all add: periodicCleanup_def frame)

lemma cleanupConnection_fields [frame]:
  "messageQueue (cleanupConnection w) = messageQueue w"
  "reconnectCount (cleanupConnection w) = reconnectCount w"
  by (simp_all add: cleanupConnection_def stopPerformanceMonitoring_def frame
      split: option.splits)

lemma checkZombieConnection_fields [frame]:
  "messageQueue (checkZombieConnection w) = messageQueue w"
  "reconnectCount (checkZombieConnection w) =
     (if isConnected w \<and> now w - lastMessageTime w > ZOMBIE_CONNECTION_TIMEOUT
      then 0 else reconnectCount w)"
  by (simp_all add: checkZombieConnection_def frame)

lemma handleWindowFocus_fields [frame]:
  "messageQueue (handleWindowFocus w) = messageQueue w"
  "reconnectCount (handleWindowFocus w) = reconnectCount w"
  using handleWindowFocus_console [of w] by (auto simp: frame)

lemma handleNetworkChange_fields [frame]:
  "messageQueue (handleNetworkChange b w) = messageQueue w"
  "reconnectCount (handleNetworkChange b w) = (if b then 0 else reconnectCount w)"
  by (simp_all add: handleNetworkChange_def frame)

lemma handleNetworkQualityChange_fields [frame]:
  "messageQueue (handleNetworkQualityChange et dl w) = messageQueue w"
  "reconnectCount (handleNetworkQualityChange et dl w) = reconnectCount w"
  by (simp_all add: handleNetworkQualityChange_def adjustForPoorConnection_def
      adjustForGoodConnection_def Let_def frame)

lemma listener_fields [frame]:
  "messageQueue (addMessageListener l w) = messageQueue w"
  "reconnectCount (addMessageListener l w) = reconnectCount w"
  "messageQueue (removeMessageListener l w) = messageQueue w"
  "reconnectCount (removeMessageListener l w) = reconnectCount w"
  by (simp_all add: addMessageListener_def removeMessageListener_def)

lemma set_readyState_fields [frame]:
  "messageQueue (set_readyState i r w) = messageQueue w"
  "reconnectCount (set_readyState i r w) = reconnectCount w"
  by (simp_all add: set_readyState_def)

section \<open>Queue capacity\<close>

lemma checkPerformance_length:
  "length (messageQueue w) \<le> MAX_QUEUE_SIZE \<Longrightarrow>
   length (messageQueue (state_of (checkPerformance w))) \<le> MAX_QUEUE_SIZE"
  using checkPerformance_fields(1) [of w] by simp

lemma callback_length:
  "length (messageQueue w) \<le> MAX_QUEUE_SIZE \<Longrightarrow>
   length (messageQueue (state_of (callback k w))) \<le> MAX_QUEUE_SIZE"
  by (cases k)
    (simp_all add: callback_def frame performHealthCheck_length checkPerformance_length
      telemetry_tick_state)

lemma fire_length:
  "length (messageQueue w) \<le> MAX_QUEUE_SIZE \<Longrightarrow>
   length (messageQueue (state_of (fire t w))) \<le> MAX_QUEUE_SIZE"
  by (simp add: fire_def callback_length frame split: option.splits)

lemma step_length:
  "length (messageQueue w) \<le> MAX_QUEUE_SIZE \<Longrightarrow>
   length (messageQueue (state_of (step e w))) \<le> MAX_QUEUE_SIZE"
  by (cases e)
    (simp_all add: step_def frame send_length handleOpen_fields fire_length
      handleVisibilityChange_def)

lemma init_queue: "messageQueue (init t0 win heap plan) = []"
  by (simp add: init_def startPerformanceMonitoring_def setInterval_def Let_def)

lemma run_length:
  "length (messageQueue w) \<le> MAX_QUEUE_SIZE \<Longrightarrow>
   length (messageQueue (run es w)) \<le> MAX_QUEUE_SIZE"
  by (induction es arbitrary: w) (simp_all add: step_length)

lemma send_full_queue:
  "length (messageQueue w) = MAX_QUEUE_SIZE \<Longrightarrow> \<not> isConnected w \<Longrightarrow>
   messageQueue (state_of (send m w)) = messageQueue w"
  by (simp add: send_def queueMessage_full frame split: sum.splits)

lemma send_overflow_console:
  "length (messageQueue w) = MAX_QUEUE_SIZE \<Longrightarrow> \<not> isConnected w \<Longrightarrow>
   serialize m = Inr s \<Longrightarrow> int (length s) \<le> MAX_MESSAGE_SIZE \<Longrightarrow>
   send m w =
     Returned (w\<lparr>console := console w @ [(Warn, ''Message queue overflow, dropping message'')]\<rparr>)"
  by (simp add: send_def queueMessage_def log_line_def)

lemma send_oversize_console:
  "serialize m = Inr s \<Longrightarrow> int (length s) > MAX_MESSAGE_SIZE \<Longrightarrow>
   send m w =
     Returned (w\<lparr>console := console w @ [(Error, ''Message exceeds maximum size limit'')]\<rparr>)"
  by (simp add: send_def log_line_def)

lemma full_queue_facts:
  "length (messageQueue full_queue) = MAX_QUEUE_SIZE" "\<not> isConnected full_queue"
  "console full_queue = []"
  unfolding full_queue_def fresh_def by code_simp+




section \<open>Attempt counter\<close>

lemma callback_reconnectCount:
  "reconnectCount (state_of (callback k w)) =
     (if k = HealthInterval \<and> now w - lastPongTime w > HEALTH_CHECK_TIMEOUT w
         \<and> missedPings w + 1 \<ge> MAX_MISSED_PINGS
      then 0 else reconnectCount w)"
  by (cases k)
    (simp_all add: callback_def frame performHealthCheck_reconnectCount telemetry_tick_state)

lemma fire_reconnectCount:
  "reconnectCount (state_of (fire t w)) =
     (if invokes_reconnect (TimerFire t) w then 0 else reconnectCount w)"
  by (auto simp: fire_def invokes_reconnect_def callback_reconnectCount clearTimer_def
      split: option.splits)

lemma handleClose_set_readyState:
  "reconnectCount w \<le> reconnectCount (handleClose (set_readyState i r w))"
  using handleClose_fields(2) [of "set_readyState i r w"] by (simp add: frame)

lemma step_reconnectCount_reset:
  "opens e w \<or> invokes_reconnect e w \<Longrightarrow> reconnectCount (state_of (step e w)) = 0"
  by (cases e)
    (auto simp: step_def opens_def invokes_reconnect_def frame handleOpen_fields
      fire_reconnectCount handleVisibilityChange_def)

lemma step_reconnectCount_kept:
  "\<not> opens e w \<Longrightarrow> \<not> invokes_reconnect e w \<Longrightarrow>
   reconnectCount w \<le> reconnectCount (state_of (step e w))"
  by (cases e)
    (auto simp: step_def opens_def invokes_reconnect_def frame handleOpen_fields
      fire_reconnectCount handleVisibilityChange_def handleClose_set_readyState)

text \<open>
  Claim C2, amended: the attempt counter is set to zero by every step in which a
  connecting transport opens and by every step that calls \<open>reconnect()\<close>; in every
  other step it does not decrease, so it never returns to zero from a non-zero
  value.
\<close>

theorem attempt_counter_reset:
  "(opens e w \<or> invokes_reconnect e w \<longrightarrow> reconnectCount (state_of (step e w)) = 0)
   \<and> (\<not> opens e w \<and> \<not> invokes_reconnect e w \<longrightarrow>
        reconnectCount w \<le> reconnectCount (state_of (step e w)))"
  using step_reconnectCount_reset [of e w] step_reconnectCount_kept [of e w] by blast

text \<open>
  Claim C2, as stated, fails: with the attempt counter at 1, a call of
  \<open>reconnect()\<close> sets it to zero; the step is not an open, and no transport is open
  afterwards.
\<close>

theorem reconnect_resets_counter_counterexample:
  "reconnectCount retrying = 1
   \<and> reconnectCount (state_of (step Reconnect retrying)) = 0
   \<and> \<not> opens Reconnect retrying
   \<and> map readyState (sockets (state_of (step Reconnect retrying))) = [CLOSED, CLOSING]"
  unfolding retrying_def fresh_def opens_def by code_simp

text \<open>
  The amended claim C2 with the counter at 1: the open of the connecting transport
  sets it to zero; its close does not take it back to zero.
\<close>

theorem attempt_counter_reset_witness:
  "reconnectCount retrying = 1
   \<and> opens (SockOpen 1) retrying
   \<and> reconnectCount (state_of (step (SockOpen 1) retrying)) = 0
   \<and> \<not> opens (SockClose 1) retrying \<and> \<not> invokes_reconnect (SockClose 1) retrying
   \<and> reconnectCount retrying \<le> reconnectCount (state_of (step (SockClose 1) retrying))"
proof -
  have a: "reconnectCount retrying = 1" unfolding retrying_def fresh_def by code_simp
  have b: "opens (SockOpen 1) retrying" unfolding retrying_def fresh_def opens_def by code_simp
  have c: "\<not> opens (SockClose 1) retrying" "\<not> invokes_reconnect (SockClose 1) retrying"
    by (simp_all add: opens_def invokes_reconnect_def)
  show ?thesis
    using attempt_counter_reset [of "SockOpen 1" retrying]
      attempt_counter_reset [of "SockClose 1" retrying] a b c
    by simp
qed

section \<open>Rate limiter\<close>

lemma checkRateLimit_in_window:
  assumes "now w - timestamp (rateLimitCounter w) \<le> RATE_LIMIT_RESET"
  shows "fst (checkRateLimit w) = (count (rateLimitCounter w) < MAX_RATE_LIMIT_ATTEMPTS)"
    and "timestamp (rateLimitCounter (snd (checkRateLimit w))) = timestamp (rateLimitCounter w)"
    and "count (rateLimitCounter (snd (checkRateLimit w)))
         = (if count (rateLimitCounter w) < MAX_RATE_LIMIT_ATTEMPTS
            then count (rateLimitCounter w) + 1 else count (rateLimitCounter w))"
  using assms by (simp_all add: checkRateLimit_def Let_def log_line_def)

lemma checkRateLimit_window_elapsed:
  "now w - timestamp (rateLimitCounter w) > RATE_LIMIT_RESET \<Longrightarrow>
   checkRateLimit w = (True, w\<lparr>rateLimitCounter := \<lparr>timestamp = now w, count = 1\<rparr>\<rparr>)"
  by (simp add: checkRateLimit_def Let_def MAX_RATE_LIMIT_ATTEMPTS_def)

lemma checkRateLimit_effect:
  "fst (checkRateLimit w)
     = (now w - timestamp (rateLimitCounter w) > RATE_LIMIT_RESET
        \<or> count (rateLimitCounter w) < MAX_RATE_LIMIT_ATTEMPTS)"
  "rateLimitCounter (snd (checkRateLimit w))
     = (if now w - timestamp (rateLimitCounter w) > RATE_LIMIT_RESET
        then \<lparr>timestamp = now w, count = 1\<rparr>
        else if count (rateLimitCounter w) < MAX_RATE_LIMIT_ATTEMPTS
        then \<lparr>timestamp = timestamp (rateLimitCounter w),
              count = count (rateLimitCounter w) + 1\<rparr>
        else rateLimitCounter w)"
  by (simp_all add: checkRateLimit_def Let_def log_line_def MAX_RATE_LIMIT_ATTEMPTS_def)

lemma attempts_in_window:
  "\<forall>t\<in>set ts. t - timestamp (rateLimitCounter w) \<le> RATE_LIMIT_RESET \<Longrightarrow>
   attempts ts w =
     replicate (min (MAX_RATE_LIMIT_ATTEMPTS - count (rateLimitCounter w)) (length ts)) True @
     replicate (length ts - (MAX_RATE_LIMIT_ATTEMPTS - count (rateLimitCounter w))) False"
proof (induction ts arbitrary: w)
  case Nil
  then show ?case by simp
next
  case (Cons t ts)
  let ?v = "w\<lparr>now := t\<rparr>"
  obtain ok w' where c: "checkRateLimit ?v = (ok, w')" by (cases "checkRateLimit ?v")
  have inw: "now ?v - timestamp (rateLimitCounter ?v) \<le> RATE_LIMIT_RESET"
    using Cons.prems(1) by simp
  note f = checkRateLimit_in_window [OF inw, unfolded c, simplified]
  have ts': "\<forall>t\<in>set ts. t - timestamp (rateLimitCounter w') \<le> RATE_LIMIT_RESET"
    using Cons.prems(1) f(2) by simp
  show ?case
  proof (cases "count (rateLimitCounter w) < MAX_RATE_LIMIT_ATTEMPTS")
    case True
    then obtain d where d: "MAX_RATE_LIMIT_ATTEMPTS - count (rateLimitCounter w) = Suc d"
      by (metis Suc_diff_Suc)
    have "MAX_RATE_LIMIT_ATTEMPTS - count (rateLimitCounter w') = d"
      using f(3) True d by simp
    then show ?thesis
      using Cons.IH [OF ts'] f(1) True d by (simp add: c)
  next
    case False
    then have "count (rateLimitCounter w') = count (rateLimitCounter w)"
      "MAX_RATE_LIMIT_ATTEMPTS - count (rateLimitCounter w) = 0"
      using f(3) by simp_all
    then show ?thesis
      using Cons.IH [OF ts'] f(1) False by (simp add: c replicate_app_Cons_same)
  qed
qed

lemma attempts_window_elapsed:
  "t - timestamp (rateLimitCounter w) > RATE_LIMIT_RESET \<Longrightarrow>
   attempts (t # ts) w
     = True # attempts ts (w\<lparr>now := t, rateLimitCounter := \<lparr>timestamp = t, count = 1\<rparr>\<rparr>)"
  by (simp add: checkRateLimit_window_elapsed)

lemma connect_blocked:
  assumes "count (rateLimitCounter w) \<ge> MAX_RATE_LIMIT_ATTEMPTS"
    and "now w - timestamp (rateLimitCounter w) \<le> RATE_LIMIT_RESET"
  shows "sockets (connect w) = sockets w" "ws (connect w) = ws w"
    "timers (connect w) = timers w" "reconnectTimer (connect w) = reconnectTimer w"
    "rateLimitCounter (connect w) = rateLimitCounter w"
  using assms by (simp_all add: connect_def checkRateLimit_def Let_def log_line_def)

lemma connect_after_window:
  assumes "now w - timestamp (rateLimitCounter w) > RATE_LIMIT_RESET"
    and "\<not> isReconnecting w" and "\<not> isConnected w" and "hasWindow w"
    and "\<forall>ps. upcoming w \<noteq> CtorThrows # ps"
  shows "length (sockets (connect w)) = length (sockets w) + 1"
    and "ws (connect w) = Some (length (sockets w))"
    and "rateLimitCounter (connect w) = \<lparr>timestamp = now w, count = 1\<rparr>"
  using assms
  by (simp_all add: connect_def checkRateLimit_window_elapsed construct_transport_def
      split: list.splits ctor_plan.splits)

text \<open>
  Claim C5: the rate limiter permits an attempt exactly when its window has elapsed
  or fewer than ten attempts are counted in it; a permitted attempt is counted, and
  an attempt after the window has elapsed starts a new window at that time with
  this one attempt counted. So of the attempts made within one window, those up to
  the tenth counted are permitted and all later ones are blocked, in the first
  window and in every later one. With ten attempts counted and the window not yet
  elapsed, \<open>connect()\<close> constructs no transport, keeps the handle, schedules no
  timer and counts nothing. Once the window has elapsed, a \<open>connect()\<close> that is
  not held back otherwise constructs a transport and starts the new window.
\<close>

theorem rate_limit_blocks_eleventh_attempt:
  "fst (checkRateLimit w)
     = (now w - timestamp (rateLimitCounter w) > RATE_LIMIT_RESET
        \<or> count (rateLimitCounter w) < MAX_RATE_LIMIT_ATTEMPTS)
   \<and> rateLimitCounter (snd (checkRateLimit w))
     = (if now w - timestamp (rateLimitCounter w) > RATE_LIMIT_RESET
        then \<lparr>timestamp = now w, count = 1\<rparr>
        else if count (rateLimitCounter w) < MAX_RATE_LIMIT_ATTEMPTS
        then \<lparr>timestamp = timestamp (rateLimitCounter w),
              count = count (rateLimitCounter w) + 1\<rparr>
        else rateLimitCounter w)
   \<and> ((\<forall>t\<in>set ts. t - timestamp (rateLimitCounter w) \<le> RATE_LIMIT_RESET) \<longrightarrow>
      attempts ts w =
        replicate (min (10 - count (rateLimitCounter w)) (length ts)) True @
        replicate (length ts - (10 - count (rateLimitCounter w))) False)
   \<and> (t - timestamp (rateLimitCounter w) > RATE_LIMIT_RESET \<longrightarrow>
      attempts (t # ts) w
        = True # attempts ts (w\<lparr>now := t, rateLimitCounter := \<lparr>timestamp = t, count = 1\<rparr>\<rparr>))
   \<and> (count (rateLimitCounter w) \<ge> MAX_RATE_LIMIT_ATTEMPTS
      \<and> now w - timestamp (rateLimitCounter w) \<le> RATE_LIMIT_RESET \<longrightarrow>
      sockets (connect w) = sockets w \<and> ws (connect w) = ws w \<and> timers (connect w) = timers w
      \<and> reconnectTimer (connect w) = reconnectTimer w
      \<and> rateLimitCounter (connect w) = rateLimitCounter w)
   \<and> (now w - timestamp (rateLimitCounter w) > RATE_LIMIT_RESET
      \<and> \<not> isReconnecting w \<and> \<not> isConnected w \<and> hasWindow w
      \<and> (\<forall>ps. upcoming w \<noteq> CtorThrows # ps) \<longrightarrow>
      length (sockets (connect w)) = length (sockets w) + 1
      \<and> ws (connect w) = Some (length (sockets w))
      \<and> rateLimitCounter (connect w) = \<lparr>timestamp = now w, count = 1\<rparr>)"
proof -
  have b: "(\<forall>t\<in>set ts. t - timestamp (rateLimitCounter w) \<le> RATE_LIMIT_RESET) \<longrightarrow>
      attempts ts w =
        replicate (min (10 - count (rateLimitCounter w)) (length ts)) True @
        replicate (length ts - (10 - count (rateLimitCounter w))) False"
    using attempts_in_window [of ts w] by (simp add: MAX_RATE_LIMIT_ATTEMPTS_def)
  have c: "t - timestamp (rateLimitCounter w) > RATE_LIMIT_RESET \<longrightarrow>
      attempts (t # ts) w
        = True # attempts ts (w\<lparr>now := t, rateLimitCounter := \<lparr>timestamp = t, count = 1\<rparr>\<rparr>)"
    using attempts_window_elapsed [where w = w and t = t and ts = ts] by blast
  have d: "count (rateLimitCounter w) \<ge> MAX_RATE_LIMIT_ATTEMPTS
      \<and> now w - timestamp (rateLimitCounter w) \<le> RATE_LIMIT_RESET \<longrightarrow>
      sockets (connect w) = sockets w \<and> ws (connect w) = ws w \<and> timers (connect w) = timers w
      \<and> reconnectTimer (connect w) = reconnectTimer w
      \<and> rateLimitCounter (connect w) = rateLimitCounter w"
    using connect_blocked [of w] by simp
  have e: "now w - timestamp (rateLimitCounter w) > RATE_LIMIT_RESET
      \<and> \<not> isReconnecting w \<and> \<not> isConnected w \<and> hasWindow w
      \<and> (\<forall>ps. upcoming w \<noteq> CtorThrows # ps) \<longrightarrow>
      length (sockets (connect w)) = length (sockets w) + 1
      \<and> ws (connect w) = Some (length (sockets w))
      \<and> rateLimitCounter (connect w) = \<lparr>timestamp = now w, count = 1\<rparr>"
    using connect_after_window [of w] by simp
  from checkRateLimit_effect [of w] b c d e show ?thesis by blast
qed

text \<open>
  Claim C5 on a service whose ten connection attempts all failed: eleven attempts
  in the first milliseconds are answered ten times yes and once no; the eleventh
  \<open>connect()\<close> constructs nothing; after 60001 ms a \<open>connect()\<close> constructs the
  eleventh transport and starts a window at 60001 with one attempt counted; and of
  eleven attempts from 60001 on, ten are permitted and the eleventh is blocked.
\<close>

theorem rate_limit_blocks_eleventh_attempt_witness:
  "attempts [1, 2, 3, 4, 5, 6, 7, 8, 9, 10, 11] fresh
     = [True, True, True, True, True, True, True, True, True, True, False]
   \<and> length (sockets limited) = 10
   \<and> rateLimitCounter limited = \<lparr>timestamp = 0, count = 10\<rparr>
   \<and> fst (checkRateLimit limited) = False
   \<and> sockets (connect limited) = sockets limited
   \<and> rateLimitCounter (connect limited) = rateLimitCounter limited
   \<and> length (sockets (connect (run [Advance 60001] limited))) = 11
   \<and> rateLimitCounter (connect (run [Advance 60001] limited)) = \<lparr>timestamp = 60001, count = 1\<rparr>
   \<and> attempts [60001, 60002, 60003, 60004, 60005, 60006, 60007, 60008, 60009, 60010, 60011]
        limited
     = [True, True, True, True, True, True, True, True, True, True, False]"
proof -
  have f: "count (rateLimitCounter fresh) = 0" "timestamp (rateLimitCounter fresh) = 0"
    unfolding fresh_def by code_simp+
  have l: "count (rateLimitCounter limited) = 10" "now limited = 0"
    "timestamp (rateLimitCounter limited) = 0" "length (sockets limited) = 10"
    unfolding limited_def fresh_def by code_simp+
  have lr: "rateLimitCounter limited = \<lparr>timestamp = 0, count = 10\<rparr>"
    using l by (cases "rateLimitCounter limited") simp
  let ?v = "run [Advance 60001] limited"
  have v: "now ?v = 60001" "timestamp (rateLimitCounter ?v) = 0" "\<not> isReconnecting ?v"
    "\<not> isConnected ?v" "hasWindow ?v" "upcoming ?v = []" "length (sockets ?v) = 10"
    unfolding limited_def fresh_def by code_simp+
  let ?ts = "[1, 2, 3, 4, 5, 6, 7, 8, 9, 10, 11] :: int list"
  note th = rate_limit_blocks_eleventh_attempt
  have "\<forall>t\<in>set ?ts. t - timestamp (rateLimitCounter fresh) \<le> RATE_LIMIT_RESET"
    by (simp add: f RATE_LIMIT_RESET_def)
  with th [of fresh ?ts] have "attempts ?ts fresh
      = replicate (min (10 - count (rateLimitCounter fresh)) (length ?ts)) True @
        replicate (length ?ts - (10 - count (rateLimitCounter fresh))) False"
    by blast
  then have 1: "attempts ?ts fresh
      = [True, True, True, True, True, True, True, True, True, True, False]"
    by (simp del: attempts.simps add: f eval_nat_numeral)
  have 2: "fst (checkRateLimit limited) = False" "sockets (connect limited) = sockets limited"
    "rateLimitCounter (connect limited) = rateLimitCounter limited"
    using th [of limited "[]" 0]
    by (simp_all add: l RATE_LIMIT_RESET_def MAX_RATE_LIMIT_ATTEMPTS_def)
  have 3: "length (sockets (connect ?v)) = 11"
    "rateLimitCounter (connect ?v) = \<lparr>timestamp = 60001, count = 1\<rparr>"
    using th [of ?v "[]" 0] v
    by (simp_all add: RATE_LIMIT_RESET_def)
  let ?us = "[60002, 60003, 60004, 60005, 60006, 60007, 60008, 60009, 60010, 60011] :: int list"
  let ?n = "limited\<lparr>now := 60001, rateLimitCounter := \<lparr>timestamp = 60001, count = 1\<rparr>\<rparr>"
  have "attempts (60001 # ?us) limited = True # attempts ?us ?n"
    using th [of limited ?us 60001] by (simp add: l RATE_LIMIT_RESET_def del: attempts.simps)
  moreover have "\<forall>t\<in>set ?us. t - timestamp (rateLimitCounter ?n) \<le> RATE_LIMIT_RESET"
    by (simp add: RATE_LIMIT_RESET_def)
  with th [of ?n ?us] have "attempts ?us ?n
      = replicate (min (10 - count (rateLimitCounter ?n)) (length ?us)) True @
        replicate (length ?us - (10 - count (rateLimitCounter ?n))) False"
    by blast
  then have "attempts ?us ?n = [True, True, True, True, True, True, True, True, True, False]"
    by (simp del: attempts.simps add: eval_nat_numeral)
  ultimately have 4: "attempts (60001 # ?us) limited
      = [True, True, True, True, True, True, True, True, True, True, False]"
    by (simp del: attempts.simps)
  from 1 2 3 4 l(4) lr show ?thesis by (simp del: attempts.simps)
qed

section \<open>Draining the queue\<close>

text \<open>
  Claim C6 (the drain transmits every queued message in arrival order, and what is
  not yet transmitted stays queued) does not hold of the code for an empty text.
  With A, the empty string and B queued while disconnected, the drain on open
  takes all three off the queue but transmits only A and B: the test
  \<open>if (message)\<close> is false for the empty string, which is then neither transmitted
  nor queued any more. On the open transport, \<open>send\<close> itself does transmit the
  empty string.
\<close>

theorem drain_skips_empty_text:
  "messageQueue skipped = [Text ''A'', Text '''', Text ''B'']
   \<and> sent (sockets (state_of (step (SockOpen 0) skipped)) ! 0) = [''A'', ''B'']
   \<and> messageQueue (state_of (step (SockOpen 0) skipped)) = []
   \<and> isConnected (state_of (step (SockOpen 0) skipped))
   \<and> sent (sockets (state_of (send (Text '''') (state_of (step (SockOpen 0) skipped)))) ! 0)
       = [''A'', ''B'', '''']"
  unfolding skipped_def fresh_def by code_simp

lemma processMessageQueue_stop:
  "\<not> (messageQueue w \<noteq> [] \<and> isConnected w) \<Longrightarrow> processMessageQueue w = Returned w"
  by (subst processMessageQueue.simps) (simp only: if_False)

lemma isConnected_iff:
  "ws w = Some i \<Longrightarrow> i < length (sockets w) \<Longrightarrow>
   isConnected w = (readyState (sockets w ! i) = OPEN)"
  by (simp add: isConnected_def getConnectionState_def)

lemma send_accepted:
  assumes "ws w = Some i" "i < length (sockets w)" "readyState (sockets w ! i) = OPEN"
    and "\<forall>e\<in>set (script (sockets w ! i)). \<not> raises e"
    and "serialize m = Inr s" "int (length s) \<le> MAX_MESSAGE_SIZE"
  shows "send m w =
     Returned (w\<lparr>sockets := (sockets w)[i := accept s (sockets w ! i)],
                 txCount := txCount w + 1,
                 txBytes := txBytes w + getMessageSize s\<rparr>)"
  using assms
  by (cases "script (sockets w ! i)")
    (simp_all add: send_def isConnected_iff ws_send_def accept_def)

lemma drain_fifo:
  assumes "ws w = Some i" "i < length (sockets w)" "readyState (sockets w ! i) = OPEN"
    and "\<forall>e\<in>set (script (sockets w ! i)). \<not> raises e"
    and "\<forall>m\<in>set (messageQueue w). queueable m"
  shows "processMessageQueue w = Returned (state_of (processMessageQueue w))
    \<and> sent (sockets (state_of (processMessageQueue w)) ! i)
        = sent (sockets w ! i) @
          map wire_text
            (take (drain_count (script (sockets w ! i)) (length (messageQueue w))) (messageQueue w))
    \<and> messageQueue (state_of (processMessageQueue w))
        = drop (drain_count (script (sockets w ! i)) (length (messageQueue w))) (messageQueue w)
    \<and> (drain_count (script (sockets w ! i)) (length (messageQueue w)) < length (messageQueue w)
        \<longrightarrow> readyState (sockets (state_of (processMessageQueue w)) ! i) \<noteq> OPEN)"
  using assms
proof (induction "messageQueue w" arbitrary: w)
  case Nil
  then have "processMessageQueue w = Returned w"
    by (simp add: processMessageQueue_stop)
  with Nil(1) [symmetric] show ?case by simp
next
  case (Cons m q)
  note q = Cons.hyps(2) [symmetric]
  let ?sock = "sockets w ! i"
  define w1 where "w1 = w\<lparr>messageQueue := q\<rparr>"
  from Cons.prems(5) q have qm: "queueable m" and qq: "\<forall>m\<in>set q. queueable m" by simp_all
  from qm obtain s where s: "serialize m = Inr s" "int (length s) \<le> MAX_MESSAGE_SIZE"
    and t: "truthy m"
    by (auto simp: queueable_def split: sum.splits)
  have wt: "wire_text m = s" by (simp add: wire_text_def s)
  define w2 where "w2 = w1\<lparr>sockets := (sockets w1)[i := accept s (sockets w1 ! i)],
                 txCount := txCount w1 + 1,
                 txBytes := txBytes w1 + getMessageSize s\<rparr>"
  have snd: "send m w1 = Returned w2"
    unfolding w2_def using Cons.prems(1-4) s
    by (intro send_accepted) (simp_all add: w1_def)
  have con: "isConnected w" using Cons.prems(1-3) by (simp add: isConnected_iff)
  have unf: "processMessageQueue w = processMessageQueue w2"
    using con t snd q
    by (subst processMessageQueue.simps) (simp add: w1_def Let_def)
  have w2f: "ws w2 = Some i" "i < length (sockets w2)" "messageQueue w2 = q"
    "sockets w2 ! i = accept s ?sock"
    using Cons.prems(1,2) by (simp_all add: w2_def w1_def)
  show ?case
  proof (cases "script ?sock")
    case Nil
    then have acc: "accept s ?sock = ?sock\<lparr>sent := sent ?sock @ [s]\<rparr>"
      by (simp add: accept_def)
    have "q = messageQueue w2" by (simp add: w2f)
    from Cons.hyps(1) [OF this] w2f acc Cons.prems(3) Nil qq
    have "processMessageQueue w2 = Returned (state_of (processMessageQueue w2))
      \<and> sent (sockets (state_of (processMessageQueue w2)) ! i)
          = (sent ?sock @ [s]) @ map wire_text (take (drain_count [] (length q)) q)
      \<and> messageQueue (state_of (processMessageQueue w2)) = drop (drain_count [] (length q)) q
      \<and> (drain_count [] (length q) < length q
          \<longrightarrow> readyState (sockets (state_of (processMessageQueue w2)) ! i) \<noteq> OPEN)"
      by simp
    moreover have "drain_count [] (length q) = length q" by (cases "length q") simp_all
    ultimately show ?thesis
      using unf q Nil wt by simp
  next
    case (Cons e es)
    then have acc: "accept s ?sock
        = ?sock\<lparr>readyState := state_after e, sent := sent ?sock @ [s], script := es\<rparr>"
      by (simp add: accept_def)
    show ?thesis
    proof (cases "state_after e = OPEN")
      case True
      have nr: "\<forall>e\<in>set es. \<not> raises e" using Cons.prems(4) Cons by simp
      have "q = messageQueue w2" by (simp add: w2f)
      from Cons.hyps(1) [OF this] w2f acc True nr qq
      have "processMessageQueue w2 = Returned (state_of (processMessageQueue w2))
        \<and> sent (sockets (state_of (processMessageQueue w2)) ! i)
            = (sent ?sock @ [s]) @ map wire_text (take (drain_count es (length q)) q)
        \<and> messageQueue (state_of (processMessageQueue w2)) = drop (drain_count es (length q)) q
        \<and> (drain_count es (length q) < length q
            \<longrightarrow> readyState (sockets (state_of (processMessageQueue w2)) ! i) \<noteq> OPEN)"
        by simp
      then show ?thesis
        using unf q Cons True wt by simp
    next
      case False
      then have "\<not> isConnected w2" using w2f acc by (simp add: isConnected_iff)
      then have "processMessageQueue w2 = Returned w2"
        by (simp add: processMessageQueue_stop)
      then show ?thesis
        using unf q Cons False wt w2f acc by simp
    qed
  qed
qed

lemma handleOpen_drains:
  "handleOpen w =
     processMessageQueue
       (startHealthChecks
          ((log_line ''Connection established'' Info w)
             \<lparr>isReconnecting := False, reconnectCount := 0, missedPings := 0,
              lastPongTime := now w, lastMessageTime := now w\<rparr>))"
  by (simp add: handleOpen_def)

lemma startHealthChecks_transport:
  "ws (startHealthChecks w) = ws w" "sockets (startHealthChecks w) = sockets w"
  by (simp_all add: startHealthChecks_def stopHealthChecks_def setInterval_def clearTimer_def
      Let_def split: option.splits)

text \<open>
  What the drain does get right: when the transport held by the service opens, with
  a queue of non-empty messages and a transport that accepts every frame, the
  drain transmits the first \<open>k\<close> queued messages in arrival order and leaves the
  others queued in their order, where \<open>k\<close> counts the messages up to and including
  the first whose transmission takes the transport out of the open state (all of
  them if there is none): the drain stops as soon as the transport is no longer
  open.
\<close>

lemma drain_on_open_is_fifo:
  "ws w = Some i \<and> i < length (sockets w) \<and> readyState (sockets w ! i) = CONNECTING
     \<and> (\<forall>e\<in>set (script (sockets w ! i)). \<not> raises e)
     \<and> (\<forall>m\<in>set (messageQueue w). queueable m) \<longrightarrow>
   step (SockOpen i) w = Returned (state_of (step (SockOpen i) w))
   \<and> sent (sockets (state_of (step (SockOpen i) w)) ! i)
       = sent (sockets w ! i) @
         map wire_text
           (take (drain_count (script (sockets w ! i)) (length (messageQueue w))) (messageQueue w))
   \<and> messageQueue (state_of (step (SockOpen i) w))
       = drop (drain_count (script (sockets w ! i)) (length (messageQueue w))) (messageQueue w)
   \<and> (drain_count (script (sockets w ! i)) (length (messageQueue w)) < length (messageQueue w)
       \<longrightarrow> readyState (sockets (state_of (step (SockOpen i) w)) ! i) \<noteq> OPEN)"
proof
  assume a: "ws w = Some i \<and> i < length (sockets w) \<and> readyState (sockets w ! i) = CONNECTING
     \<and> (\<forall>e\<in>set (script (sockets w ! i)). \<not> raises e)
     \<and> (\<forall>m\<in>set (messageQueue w). queueable m)"
  define w0 where "w0 =
     startHealthChecks
       ((log_line ''Connection established'' Info (set_readyState i OPEN w))
          \<lparr>isReconnecting := False, reconnectCount := 0, missedPings := 0,
           lastPongTime := now (set_readyState i OPEN w),
           lastMessageTime := now (set_readyState i OPEN w)\<rparr>)"
  have st: "step (SockOpen i) w = processMessageQueue w0"
    using a by (simp add: step_def handleOpen_drains w0_def)
  have f: "ws w0 = Some i" "i < length (sockets w0)"
    "sockets w0 ! i = (sockets w ! i)\<lparr>readyState := OPEN\<rparr>"
    "messageQueue w0 = messageQueue w"
    using a
    by (simp_all add: w0_def startHealthChecks_transport startHealthChecks_fields
        log_line_def set_readyState_def)
  have "processMessageQueue w0 = Returned (state_of (processMessageQueue w0))
    \<and> sent (sockets (state_of (processMessageQueue w0)) ! i)
        = sent (sockets w0 ! i) @
          map wire_text
            (take (drain_count (script (sockets w0 ! i)) (length (messageQueue w0)))
               (messageQueue w0))
    \<and> messageQueue (state_of (processMessageQueue w0))
        = drop (drain_count (script (sockets w0 ! i)) (length (messageQueue w0)))
            (messageQueue w0)
    \<and> (drain_count (script (sockets w0 ! i)) (length (messageQueue w0))
          < length (messageQueue w0)
        \<longrightarrow> readyState (sockets (state_of (processMessageQueue w0)) ! i) \<noteq> OPEN)"
    using a f by (intro drain_fifo) simp_all
  then show "step (SockOpen i) w = Returned (state_of (step (SockOpen i) w))
   \<and> sent (sockets (state_of (step (SockOpen i) w)) ! i)
       = sent (sockets w ! i) @
         map wire_text
           (take (drain_count (script (sockets w ! i)) (length (messageQueue w))) (messageQueue w))
   \<and> messageQueue (state_of (step (SockOpen i) w))
       = drop (drain_count (script (sockets w ! i)) (length (messageQueue w))) (messageQueue w)
   \<and> (drain_count (script (sockets w ! i)) (length (messageQueue w)) < length (messageQueue w)
       \<longrightarrow> readyState (sockets (state_of (step (SockOpen i) w)) ! i) \<noteq> OPEN)"
    unfolding st by (simp add: f)
qed

text \<open>
  With A, B, C queued and a transport that starts closing with the second frame, A
  and B are transmitted in this order and C stays queued.
\<close>

lemma drain_on_open_is_fifo_interrupted:
  "messageQueue interrupted = [Text ''A'', Text ''B'', Text ''C'']
   \<and> sent (sockets (state_of (step (SockOpen 0) interrupted)) ! 0) = [''A'', ''B'']
   \<and> messageQueue (state_of (step (SockOpen 0) interrupted)) = [Text ''C'']
   \<and> readyState (sockets (state_of (step (SockOpen 0) interrupted)) ! 0) \<noteq> OPEN"
proof -
  have f: "ws interrupted = Some 0" "length (sockets interrupted) = 1"
    "readyState (sockets interrupted ! 0) = CONNECTING"
    "script (sockets interrupted ! 0) = [SendEffect False OPEN, SendEffect False CLOSING]"
    "messageQueue interrupted = [Text ''A'', Text ''B'', Text ''C'']"
    "sent (sockets interrupted ! 0) = []"
    unfolding interrupted_def by code_simp+
  have q: "queueable (Text ''A'')" "queueable (Text ''B'')" "queueable (Text ''C'')"
    by (simp_all add: queueable_def truthy_def serialize_def MAX_MESSAGE_SIZE_def)
  have w: "wire_text (Text ''A'') = ''A''" "wire_text (Text ''B'') = ''B''"
    by (simp_all add: wire_text_def serialize_def)
  show ?thesis
    using drain_on_open_is_fifo [of interrupted 0]
    by (simp add: f q w)
qed

section \<open>Missed probes\<close>

lemma map_sent_update:
  "sent s = sent (xs ! i) \<Longrightarrow> map sent (xs[i := s]) = map sent xs"
  by (cases "i < length xs") (simp_all add: map_update list_update_same_conv list_update_beyond)

lemma ws_close_sent: "sent (ws_close s) = sent s"
  by (simp add: ws_close_def split: ready_state.splits)

lemma stopHealthChecks_props:
  "sockets (stopHealthChecks w) = sockets w" "ws (stopHealthChecks w) = ws w"
  "missedPings (stopHealthChecks w) = missedPings w"
  "healthCheckTimer (stopHealthChecks w) = None"
  "reconnectTimer (stopHealthChecks w) = reconnectTimer w"
  by (simp_all add: stopHealthChecks_def clearTimer_def split: option.splits)

lemma stopHealthChecks_no_health:
  "health_timers_tracked w \<Longrightarrow> health_timers (stopHealthChecks w) = []"
  by (auto simp: stopHealthChecks_def clearTimer_def health_timers_tracked_def health_timers_def
      filter_empty_conv split: option.splits)

lemma disconnect_props:
  "transmitted (disconnect w) = transmitted w"
  "length (sockets (disconnect w)) = length (sockets w)"
  "missedPings (disconnect w) = missedPings w"
  "healthCheckTimer (disconnect w) = None"
  by (simp_all add: disconnect_def Let_def stopHealthChecks_props clearTimer_def transmitted_def
      map_sent_update ws_close_sent split: option.splits)

lemma disconnect_no_health:
  "health_timers_tracked w \<Longrightarrow> health_timers (disconnect w) = []"
proof -
  assume "health_timers_tracked w"
  then have "health_timers (stopHealthChecks w) = []" by (rule stopHealthChecks_no_health)
  then show ?thesis
    by (simp add: disconnect_def Let_def clearTimer_def health_timers_def filter_empty_conv
        split: option.splits)
qed

lemma connect_props:
  "transmitted (connect w) = transmitted w"
  "length (sockets (connect w)) \<le> length (sockets w) + 1"
  "missedPings (connect w) = missedPings w"
  "healthCheckTimer (connect w) = healthCheckTimer w"
  "timers (connect w) = timers w"
  by (simp_all add: connect_def checkRateLimit_def Let_def log_line_def handleError_def
      construct_transport_def new_socket_def transmitted_def
      split: list.splits ctor_plan.splits)

lemma reconnect_props:
  "transmitted (reconnect w) = transmitted w"
  "length (sockets (reconnect w)) \<le> length (sockets w) + 1"
  "missedPings (reconnect w) = missedPings w"
  "healthCheckTimer (reconnect w) = None"
proof -
  let ?d = "(disconnect w)\<lparr>reconnectCount := 0\<rparr>"
  have d: "transmitted ?d = transmitted w" "length (sockets ?d) = length (sockets w)"
    "missedPings ?d = missedPings w" "healthCheckTimer ?d = None"
    using disconnect_props [of w] by (simp_all add: transmitted_def)
  show "transmitted (reconnect w) = transmitted w"
    unfolding reconnect_def using connect_props(1) [of ?d] d by simp
  show "length (sockets (reconnect w)) \<le> length (sockets w) + 1"
    unfolding reconnect_def using connect_props(2) [of ?d] d by simp
  show "missedPings (reconnect w) = missedPings w"
    unfolding reconnect_def using connect_props(3) [of ?d] d by simp
  show "healthCheckTimer (reconnect w) = None"
    unfolding reconnect_def using connect_props(4) [of ?d] d by simp
qed

lemma reconnect_no_health:
  assumes "health_timers_tracked w"
  shows "health_timers (reconnect w) = []"
proof -
  let ?d = "(disconnect w)\<lparr>reconnectCount := 0\<rparr>"
  have "health_timers ?d = []"
    using disconnect_no_health [OF assms] by (simp add: health_timers_def)
  then show ?thesis
    unfolding reconnect_def using connect_props(5) [of ?d] by (simp add: health_timers_def)
qed

lemma log_line_props:
  "transmitted (log_line m t w) = transmitted w"
  "sockets (log_line m t w) = sockets w"
  "missedPings (log_line m t w) = missedPings w"
  "health_timers_tracked (log_line m t w) = health_timers_tracked w"
  by (simp_all add: log_line_def transmitted_def health_timers_tracked_def)

lemma send_missedPings: "missedPings (state_of (send m w)) = missedPings w"
  by (simp add: send_def queueMessage_def log_line_def split: sum.splits option.splits prod.splits)

lemma processMessageQueue_missedPings:
  "missedPings (state_of (processMessageQueue w)) = missedPings w"
  using processMessageQueue_preserves [where P = "\<lambda>v. missedPings v = missedPings w" and w = w]
  by (simp add: send_missedPings)

lemma handleOpen_missedPings: "missedPings (state_of (handleOpen w)) = 0"
  by (simp add: handleOpen_def processMessageQueue_missedPings startHealthChecks_def
      stopHealthChecks_props setInterval_def Let_def)

lemma performHealthCheck_at_tolerance:
  assumes "now w - lastPongTime w > HEALTH_CHECK_TIMEOUT w"
    and "missedPings w + 1 \<ge> MAX_MISSED_PINGS"
  shows "performHealthCheck w =
     Returned (reconnect
       (log_line ''Connection degraded, initiating reconnect...'' Error
          (log_line ''Missed ping response. Strike ${this.missedPings}/${this.MAX_MISSED_PINGS}'' Warn
             (w\<lparr>missedPings := missedPings w + 1\<rparr>))))"
  using assms by (simp add: performHealthCheck_def Let_def log_line_props)

lemma performHealthCheck_tolerance_effect:
  "now w - lastPongTime w > HEALTH_CHECK_TIMEOUT w \<and> missedPings w + 1 \<ge> MAX_MISSED_PINGS \<longrightarrow>
     performHealthCheck w =
       Returned (reconnect
         (log_line ''Connection degraded, initiating reconnect...'' Error
            (log_line ''Missed ping response. Strike ${this.missedPings}/${this.MAX_MISSED_PINGS}'' Warn
               (w\<lparr>missedPings := missedPings w + 1\<rparr>))))
     \<and> transmitted (state_of (performHealthCheck w)) = transmitted w
     \<and> messageQueue (state_of (performHealthCheck w)) = messageQueue w
     \<and> length (sockets (state_of (performHealthCheck w))) \<le> length (sockets w) + 1
     \<and> missedPings (state_of (performHealthCheck w)) = missedPings w + 1
     \<and> healthCheckTimer (state_of (performHealthCheck w)) = None
     \<and> (health_timers_tracked w \<longrightarrow> health_checks_stopped (state_of (performHealthCheck w)))"
proof
  assume a: "now w - lastPongTime w > HEALTH_CHECK_TIMEOUT w \<and> missedPings w + 1 \<ge> MAX_MISSED_PINGS"
  let ?v = "log_line ''Connection degraded, initiating reconnect...'' Error
            (log_line ''Missed ping response. Strike ${this.missedPings}/${this.MAX_MISSED_PINGS}'' Warn
               (w\<lparr>missedPings := missedPings w + 1\<rparr>))"
  have eq: "performHealthCheck w = Returned (reconnect ?v)"
    using a by (simp add: performHealthCheck_at_tolerance)
  have v: "transmitted ?v = transmitted w" "messageQueue ?v = messageQueue w"
    "length (sockets ?v) = length (sockets w)" "missedPings ?v = missedPings w + 1"
    "health_timers_tracked ?v = health_timers_tracked w"
    by (simp_all add: log_line_props log_line_fields)
      (simp_all add: transmitted_def health_timers_tracked_def)
  show "performHealthCheck w = Returned (reconnect ?v)
     \<and> transmitted (state_of (performHealthCheck w)) = transmitted w
     \<and> messageQueue (state_of (performHealthCheck w)) = messageQueue w
     \<and> length (sockets (state_of (performHealthCheck w))) \<le> length (sockets w) + 1
     \<and> missedPings (state_of (performHealthCheck w)) = missedPings w + 1
     \<and> healthCheckTimer (state_of (performHealthCheck w)) = None
     \<and> (health_timers_tracked w \<longrightarrow> health_checks_stopped (state_of (performHealthCheck w)))"
    using reconnect_props [of ?v] reconnect_no_health [of ?v] v
    by (simp add: eq reconnect_fields health_checks_stopped_def)
qed

subsection \<open>The health-check timer is always the one the service holds\<close>

named_theorems tracked

lemma tracked_same:
  "timers v = timers w \<Longrightarrow> healthCheckTimer v = healthCheckTimer w \<Longrightarrow>
   health_timers_tracked v = health_timers_tracked w"
  by (simp add: health_timers_tracked_def)

lemma tracked_clearTimer [tracked]:
  "health_timers_tracked w \<Longrightarrow> health_timers_tracked (clearTimer i w)"
  by (simp add: health_timers_tracked_def clearTimer_def)

lemma tracked_stopHealthChecks [tracked]:
  "health_timers_tracked w \<Longrightarrow> health_timers_tracked (stopHealthChecks w)"
  by (auto simp: health_timers_tracked_def stopHealthChecks_def clearTimer_def
      split: option.splits)

lemma tracked_startHealthChecks [tracked]:
  "health_timers_tracked w \<Longrightarrow> health_timers_tracked (startHealthChecks w)"
proof -
  assume "health_timers_tracked w"
  then have "health_timers (stopHealthChecks w) = []" by (rule stopHealthChecks_no_health)
  then show ?thesis
    by (auto simp: health_timers_tracked_def startHealthChecks_def setInterval_def Let_def
        health_timers_def filter_empty_conv)
qed

lemma tracked_connect [tracked]:
  "health_timers_tracked (connect w) = health_timers_tracked w"
  by (rule tracked_same) (simp_all add: connect_props)

lemma tracked_attemptReconnect [tracked]:
  "health_timers_tracked w \<Longrightarrow> health_timers_tracked (attemptReconnect w)"
  by (simp add: health_timers_tracked_def attemptReconnect_def setTimeout_def Let_def)

lemma tracked_fields [tracked]:
  "health_timers_tracked (w\<lparr>isReconnecting := b\<rparr>) = health_timers_tracked w"
  "health_timers_tracked (w\<lparr>reconnectCount := n\<rparr>) = health_timers_tracked w"
  "health_timers_tracked (w\<lparr>messageQueue := q\<rparr>) = health_timers_tracked w"
  "health_timers_tracked (w\<lparr>now := t\<rparr>) = health_timers_tracked w"
  "health_timers_tracked (w\<lparr>usedJSHeapSize := h\<rparr>) = health_timers_tracked w"
  "health_timers_tracked (w\<lparr>metricsJsonLength := k\<rparr>) = health_timers_tracked w"
  by (simp_all add: health_timers_tracked_def)

lemma tracked_handleClose [tracked]:
  "health_timers_tracked w \<Longrightarrow> health_timers_tracked (handleClose w)"
  by (simp add: handleClose_def tracked log_line_props)

lemma tracked_disconnect [tracked]:
  "health_timers_tracked w \<Longrightarrow> health_timers_tracked (disconnect w)"
proof -
  assume "health_timers_tracked w"
  then have "health_timers_tracked (stopHealthChecks w)" by (rule tracked_stopHealthChecks)
  then show ?thesis
    by (simp add: disconnect_def Let_def health_timers_tracked_def clearTimer_def
        split: option.splits)
qed

lemma tracked_reconnect [tracked]:
  "health_timers_tracked w \<Longrightarrow> health_timers_tracked (reconnect w)"
  by (simp add: reconnect_def tracked)

lemma send_timers:
  "timers (state_of (send m w)) = timers w"
  "healthCheckTimer (state_of (send m w)) = healthCheckTimer w"
  by (simp_all add: send_def queueMessage_def log_line_def
      split: sum.splits option.splits prod.splits)

lemma tracked_send [tracked]:
  "health_timers_tracked (state_of (send m w)) = health_timers_tracked w"
  by (rule tracked_same) (simp_all add: send_timers)

lemma tracked_processMessageQueue [tracked]:
  "health_timers_tracked w \<Longrightarrow> health_timers_tracked (state_of (processMessageQueue w))"
  using processMessageQueue_preserves [where P = health_timers_tracked and w = w]
  by (simp add: tracked)

lemma tracked_handleOpen [tracked]:
  "health_timers_tracked w \<Longrightarrow> health_timers_tracked (state_of (handleOpen w))"
proof -
  assume a: "health_timers_tracked w"
  have "health_timers_tracked
      ((log_line ''Connection established'' Info w)
         \<lparr>isReconnecting := False, reconnectCount := 0, missedPings := 0,
          lastPongTime := now w, lastMessageTime := now w\<rparr>)"
    using a by (simp add: health_timers_tracked_def log_line_def)
  then show ?thesis
    unfolding handleOpen_def
    by (intro tracked_processMessageQueue tracked_startHealthChecks)
qed

lemma tracked_performHealthCheck [tracked]:
  "health_timers_tracked w \<Longrightarrow> health_timers_tracked (state_of (performHealthCheck w))"
proof -
  assume a: "health_timers_tracked w"
  have m: "health_timers_tracked (w\<lparr>missedPings := missedPings w + 1\<rparr>)"
    using a by (simp add: health_timers_tracked_def)
  show ?thesis
    using a m by (simp add: performHealthCheck_def Let_def tracked log_line_props)
qed

lemma notify_timers:
  "timers (notify ls w) = timers w" "healthCheckTimer (notify ls w) = healthCheckTimer w"
  by (induction ls arbitrary: w) (simp_all add: log_line_def)

lemma tracked_handleMessage [tracked]:
  "health_timers_tracked (handleMessage d w) = health_timers_tracked w"
  by (rule tracked_same)
    (simp_all add: handleMessage_def handlePong_def notifyListeners_def notify_timers Let_def
      log_line_def split: inbound.splits parsed.splits)

lemma tracked_telemetry [tracked]:
  "health_timers_tracked (checkForMemoryLeaks w) = health_timers_tracked w"
  "health_timers_tracked (state_of (checkPerformance w)) = health_timers_tracked w"
  "health_timers_tracked (periodicCleanup w) = health_timers_tracked w"
  by (rule tracked_same;
      simp add: checkForMemoryLeaks_def debugMemoryUsage_def checkPerformance_def
        cleanupResources_def logPerformanceReport_def periodicCleanup_def Let_def log_line_def
        split: sum.splits)+

lemma tracked_cleanupConnection [tracked]:
  "health_timers_tracked w \<Longrightarrow> health_timers_tracked (cleanupConnection w)"
proof -
  assume "health_timers_tracked w"
  then have "health_timers_tracked (stopPerformanceMonitoring w)"
    by (simp add: stopPerformanceMonitoring_def health_timers_tracked_def clearTimer_def
        split: option.splits)
  then show ?thesis by (simp add: cleanupConnection_def tracked)
qed

lemma tracked_signals [tracked]:
  "health_timers_tracked w \<Longrightarrow> health_timers_tracked (checkZombieConnection w)"
  "health_timers_tracked w \<Longrightarrow> health_timers_tracked (handleVisibilityChange v w)"
  "health_timers_tracked w \<Longrightarrow> health_timers_tracked (handleNetworkChange b w)"
  "health_timers_tracked w \<Longrightarrow> health_timers_tracked (handleWindowFocus w)"
  "health_timers_tracked w \<Longrightarrow> health_timers_tracked (handleError w)"
  by (simp_all add: checkZombieConnection_def handleVisibilityChange_def handleNetworkChange_def
      handleWindowFocus_def handleError_def tracked log_line_props)

lemma tracked_quality [tracked]:
  "health_timers_tracked (handleNetworkQualityChange et dl w) = health_timers_tracked w"
  by (rule tracked_same)
    (simp_all add: handleNetworkQualityChange_def adjustForPoorConnection_def
      adjustForGoodConnection_def Let_def log_line_def)

lemma tracked_listeners [tracked]:
  "health_timers_tracked (addMessageListener l w) = health_timers_tracked w"
  "health_timers_tracked (removeMessageListener l w) = health_timers_tracked w"
  "health_timers_tracked (set_readyState i r w) = health_timers_tracked w"
  by (simp_all add: health_timers_tracked_def addMessageListener_def removeMessageListener_def
      set_readyState_def)

lemma tracked_callback [tracked]:
  "health_timers_tracked w \<Longrightarrow> health_timers_tracked (state_of (callback k w))"
  by (cases k)
    (simp_all add: callback_def tracked log_line_props telemetry_tick_state)

lemma tracked_reschedule:
  "health_timers_tracked w \<Longrightarrow>
   health_timers_tracked
     (w\<lparr>timers := map (\<lambda>y. if tid y = t then y\<lparr>due := due y + p\<rparr> else y) (timers w)\<rparr>)"
  by (auto simp: health_timers_tracked_def)

lemma tracked_fire [tracked]:
  "health_timers_tracked w \<Longrightarrow> health_timers_tracked (state_of (fire t w))"
  by (simp add: fire_def tracked tracked_reschedule split: option.splits)

lemma tracked_step:
  "health_timers_tracked w \<Longrightarrow> health_timers_tracked (state_of (step e w))"
  by (cases e) (simp_all add: step_def tracked)

lemma tracked_init: "health_timers_tracked (init t0 win heap plan)"
  by (simp add: init_def startPerformanceMonitoring_def setInterval_def Let_def
      health_timers_tracked_def)

lemma tracked_run:
  "health_timers_tracked w \<Longrightarrow> health_timers_tracked (run es w)"
  by (induction es arbitrary: w) (simp_all add: tracked_step)

lemma health_timers_tracked_reachable:
  "health_timers_tracked (run es (init t0 win heap plan))"
  by (simp add: tracked_run tracked_init)

subsection \<open>While no health check is scheduled\<close>

named_theorems stopped
named_theorems missed

lemma stopped_same:
  "timers v = timers w \<Longrightarrow> healthCheckTimer v = healthCheckTimer w \<Longrightarrow>
   health_checks_stopped v = health_checks_stopped w"
  by (simp add: health_checks_stopped_def health_timers_def)

lemma stopped_fields [stopped]:
  "health_checks_stopped (w\<lparr>isReconnecting := b\<rparr>) = health_checks_stopped w"
  "health_checks_stopped (w\<lparr>reconnectCount := n\<rparr>) = health_checks_stopped w"
  "health_checks_stopped (w\<lparr>now := t\<rparr>) = health_checks_stopped w"
  "health_checks_stopped (w\<lparr>usedJSHeapSize := h\<rparr>) = health_checks_stopped w"
  "health_checks_stopped (w\<lparr>metricsJsonLength := k\<rparr>) = health_checks_stopped w"
  "health_checks_stopped (log_line m ty w) = health_checks_stopped w"
  "health_checks_stopped (set_readyState i r w) = health_checks_stopped w"
  "health_checks_stopped (addMessageListener l w) = health_checks_stopped w"
  "health_checks_stopped (removeMessageListener l w) = health_checks_stopped w"
  by (simp_all add: health_checks_stopped_def health_timers_def log_line_def set_readyState_def
      addMessageListener_def removeMessageListener_def)

lemma stopped_clearTimer [stopped]:
  "health_checks_stopped w \<Longrightarrow> health_checks_stopped (clearTimer i w)"
  by (simp add: health_checks_stopped_def health_timers_def clearTimer_def filter_empty_conv)

lemma stopped_stopHealthChecks [stopped]:
  "health_checks_stopped w \<Longrightarrow> stopHealthChecks w = w"
  by (simp add: health_checks_stopped_def stopHealthChecks_def)

lemma stopped_connect [stopped]:
  "health_checks_stopped (connect w) = health_checks_stopped w"
  by (rule stopped_same) (simp_all add: connect_props)

lemma stopped_attemptReconnect [stopped]:
  "health_checks_stopped w \<Longrightarrow> health_checks_stopped (attemptReconnect w)"
  by (simp add: health_checks_stopped_def health_timers_def attemptReconnect_def setTimeout_def
      Let_def)

lemma stopped_handleClose [stopped]:
  "health_checks_stopped w \<Longrightarrow> health_checks_stopped (handleClose w)"
  by (simp add: handleClose_def stopped)

lemma stopped_disconnect [stopped]:
  "health_checks_stopped w \<Longrightarrow> health_checks_stopped (disconnect w)"
  by (simp add: disconnect_def Let_def stopped)
    (simp add: health_checks_stopped_def health_timers_def clearTimer_def filter_empty_conv
      split: option.splits)

lemma stopped_reconnect [stopped]:
  "health_checks_stopped w \<Longrightarrow> health_checks_stopped (reconnect w)"
  by (simp add: reconnect_def stopped)

lemma stopped_send [stopped]:
  "health_checks_stopped (state_of (send m w)) = health_checks_stopped w"
  by (rule stopped_same) (simp_all add: send_timers)

lemma stopped_performHealthCheck [stopped]:
  "health_checks_stopped w \<Longrightarrow> health_checks_stopped (state_of (performHealthCheck w))"
proof -
  assume a: "health_checks_stopped w"
  have m: "health_checks_stopped (w\<lparr>missedPings := missedPings w + 1\<rparr>)"
    using a by (simp add: health_checks_stopped_def health_timers_def)
  show ?thesis
    using a m by (simp add: performHealthCheck_def Let_def stopped)
qed

lemma stopped_handleMessage [stopped]:
  "health_checks_stopped (handleMessage d w) = health_checks_stopped w"
  by (rule stopped_same)
    (simp_all add: handleMessage_def handlePong_def notifyListeners_def notify_timers Let_def
      log_line_def split: inbound.splits parsed.splits)

lemma stopped_telemetry [stopped]:
  "health_checks_stopped (checkForMemoryLeaks w) = health_checks_stopped w"
  "health_checks_stopped (state_of (checkPerformance w)) = health_checks_stopped w"
  "health_checks_stopped (periodicCleanup w) = health_checks_stopped w"
  by (rule stopped_same;
      simp add: checkForMemoryLeaks_def debugMemoryUsage_def checkPerformance_def
        cleanupResources_def logPerformanceReport_def periodicCleanup_def Let_def log_line_def
        split: sum.splits)+

lemma stopped_cleanupConnection [stopped]:
  "health_checks_stopped w \<Longrightarrow> health_checks_stopped (cleanupConnection w)"
proof -
  assume "health_checks_stopped w"
  then have "health_checks_stopped (stopPerformanceMonitoring w)"
    by (simp add: stopPerformanceMonitoring_def health_checks_stopped_def health_timers_def
        clearTimer_def filter_empty_conv split: option.splits)
  then show ?thesis by (simp add: cleanupConnection_def stopped)
qed

lemma stopped_signals [stopped]:
  "health_checks_stopped w \<Longrightarrow> health_checks_stopped (checkZombieConnection w)"
  "health_checks_stopped w \<Longrightarrow> health_checks_stopped (handleVisibilityChange v w)"
  "health_checks_stopped w \<Longrightarrow> health_checks_stopped (handleNetworkChange b w)"
  "health_checks_stopped w \<Longrightarrow> health_checks_stopped (handleWindowFocus w)"
  "health_checks_stopped w \<Longrightarrow> health_checks_stopped (handleError w)"
  by (simp_all add: checkZombieConnection_def handleVisibilityChange_def handleNetworkChange_def
      handleWindowFocus_def handleError_def stopped)

lemma stopped_quality [stopped]:
  "health_checks_stopped (handleNetworkQualityChange et dl w) = health_checks_stopped w"
  by (rule stopped_same)
    (simp_all add: handleNetworkQualityChange_def adjustForPoorConnection_def
      adjustForGoodConnection_def Let_def log_line_def)

lemma stopped_callback [stopped]:
  "health_checks_stopped w \<Longrightarrow> health_checks_stopped (state_of (callback k w))"
  by (cases k) (simp_all add: callback_def stopped telemetry_tick_state)

lemma stopped_reschedule:
  "health_checks_stopped w \<Longrightarrow>
   health_checks_stopped
     (w\<lparr>timers := map (\<lambda>y. if tid y = t then y\<lparr>due := due y + p\<rparr> else y) (timers w)\<rparr>)"
  by (auto simp: health_checks_stopped_def health_timers_def filter_empty_conv)

lemma stopped_fire [stopped]:
  "health_checks_stopped w \<Longrightarrow> health_checks_stopped (state_of (fire t w))"
  by (simp add: fire_def stopped stopped_reschedule split: option.splits)

lemma stopped_step:
  "health_checks_stopped w \<Longrightarrow> \<not> opens e w \<Longrightarrow> health_checks_stopped (state_of (step e w))"
  by (cases e) (auto simp: step_def stopped opens_def)

subsection \<open>The missed-probe counter while no health check is scheduled\<close>

lemma missed_basic [missed]:
  "missedPings (clearTimer i w) = missedPings w"
  "missedPings (set_readyState i r w) = missedPings w"
  "missedPings (addMessageListener l w) = missedPings w"
  "missedPings (removeMessageListener l w) = missedPings w"
  "missedPings (handleError w) = missedPings w"
  "missedPings (attemptReconnect w) = missedPings w"
  "missedPings (periodicCleanup w) = missedPings w"
  "missedPings (checkForMemoryLeaks w) = missedPings w"
  "missedPings (handleNetworkQualityChange et dl w) = missedPings w"
  by (simp_all add: clearTimer_def set_readyState_def addMessageListener_def
      removeMessageListener_def handleError_def log_line_def attemptReconnect_def setTimeout_def
      periodicCleanup_def checkForMemoryLeaks_def debugMemoryUsage_def
      handleNetworkQualityChange_def adjustForPoorConnection_def adjustForGoodConnection_def
      Let_def)

lemma missed_handleClose [missed]: "missedPings (handleClose w) = missedPings w"
  by (simp add: handleClose_def missed stopHealthChecks_props log_line_props)

lemma missed_checkPerformance [missed]:
  "missedPings (state_of (checkPerformance w)) = missedPings w"
  by (simp add: checkPerformance_def logPerformanceReport_def cleanupResources_def Let_def
      log_line_def split: sum.splits)

lemma missed_cleanupConnection [missed]: "missedPings (cleanupConnection w) = missedPings w"
  by (simp add: cleanupConnection_def disconnect_props stopPerformanceMonitoring_def clearTimer_def
      split: option.splits)

lemma missed_signals [missed]:
  "missedPings (checkZombieConnection w) = missedPings w"
  "missedPings (handleVisibilityChange v w) = missedPings w"
  "missedPings (handleNetworkChange b w) = missedPings w"
  "missedPings (handleWindowFocus w) = missedPings w"
  by (simp_all add: checkZombieConnection_def handleVisibilityChange_def handleNetworkChange_def
      handleWindowFocus_def reconnect_props disconnect_props log_line_props)

lemma notify_missedPings: "missedPings (notify ls w) = missedPings w"
  by (induction ls arbitrary: w) (simp_all add: log_line_def)

lemma missed_handleMessage:
  "\<not> is_pong (SockMessage i d) \<Longrightarrow> missedPings (handleMessage d w) = missedPings w"
  by (simp add: is_pong_def handleMessage_def notifyListeners_def notify_missedPings Let_def
      log_line_def split: inbound.splits parsed.splits)

lemma missed_fire:
  assumes "health_checks_stopped w"
  shows "missedPings (state_of (fire t w)) = missedPings w"
proof (cases "find (\<lambda>x. tid x = t) (timers w)")
  case None
  then show ?thesis by (simp add: fire_def)
next
  case (Some x)
  then have "x \<in> set (timers w)" by (auto simp: find_Some_iff in_set_conv_nth)
  then have k: "kind x \<noteq> HealthInterval"
    using assms by (auto simp: health_checks_stopped_def health_timers_def filter_empty_conv)
  show ?thesis
    using k Some
    by (cases "kind x")
      (simp_all add: fire_def callback_def telemetry_tick_state missed connect_props
        log_line_props clearTimer_def split: option.splits)
qed

lemma missed_step:
  "health_checks_stopped w \<Longrightarrow> \<not> opens e w \<Longrightarrow> \<not> is_pong e \<Longrightarrow>
   missedPings (state_of (step e w)) = missedPings w"
  by (cases e)
    (auto simp: step_def opens_def missed missed_fire missed_handleMessage connect_props
      disconnect_props reconnect_props send_missedPings)

lemma opens_missedPings:
  "opens e w \<Longrightarrow> missedPings (state_of (step e w)) = 0"
  by (cases e) (simp_all add: opens_def step_def handleOpen_missedPings)

lemma no_open_run:
  "health_checks_stopped w \<Longrightarrow> no_open es w \<Longrightarrow>
   health_checks_stopped (run es w) \<and> missedPings (run es w) = missedPings w"
  by (induction es arbitrary: w) (simp_all add: stopped_step missed_step)

text \<open>
  Claim C8, as stated, fails in its last part (the counter is reset to zero
  afterward). On the degraded connection the tick at the tolerance raises the
  counter from 1 to 2 and calls \<open>reconnect()\<close>, which closes the transport and
  constructs a new one; neither the tick nor \<open>reconnect()\<close> assigns the counter.
  While the network stays down (both transports close, 100 seconds pass, the
  retry's transport closes too) the counter is still 2.
\<close>

theorem missed_probe_counter_not_reset_counterexample:
  "missedPings degraded = 1
   \<and> map readyState (sockets reconnected) = [CLOSING, CONNECTING]
   \<and> missedPings reconnected = 2
   \<and> \<not> missedPings (run still_down reconnected) = 0
   \<and> missedPings (run still_down reconnected) = 2
   \<and> length (sockets (run still_down reconnected)) = 3
   \<and> now (run still_down reconnected) = 160000"
  unfolding reconnected_def still_down_def degraded_def fresh_def by code_simp

text \<open>
  Claim C8, amended: when the missed-probe counter reaches the tolerance of 2
  during a health-check tick (the time since the last pong exceeding the timeout),
  the tick is exactly one call of \<open>reconnect()\<close> on the state with the counter
  incremented and the two console lines written, and the rest of the tick is
  skipped: no frame (no ping) is transmitted, nothing is queued, at most one
  transport is constructed. The tick leaves the counter at its incremented value
  and no health check scheduled. From then on, over every run of events in which
  no transport opens and no pong arrives, no health check is scheduled and the
  counter keeps its value; the step in which a transport opens sets it to zero.
  (In every state the service can reach, the field \<open>healthCheckTimer\<close> names
  every pending health-check timer.)
\<close>

theorem missed_probes_force_one_reconnect:
  "health_timers_tracked (run es (init t0 win heap plan))
   \<and> (now w - lastPongTime w > HEALTH_CHECK_TIMEOUT w \<and> missedPings w + 1 \<ge> MAX_MISSED_PINGS \<longrightarrow>
         performHealthCheck w =
           Returned (reconnect
             (log_line ''Connection degraded, initiating reconnect...'' Error
                (log_line ''Missed ping response. Strike ${this.missedPings}/${this.MAX_MISSED_PINGS}'' Warn
                   (w\<lparr>missedPings := missedPings w + 1\<rparr>))))
         \<and> transmitted (state_of (performHealthCheck w)) = transmitted w
         \<and> messageQueue (state_of (performHealthCheck w)) = messageQueue w
         \<and> length (sockets (state_of (performHealthCheck w))) \<le> length (sockets w) + 1
         \<and> missedPings (state_of (performHealthCheck w)) = missedPings w + 1
         \<and> healthCheckTimer (state_of (performHealthCheck w)) = None
         \<and> (health_timers_tracked w \<longrightarrow> health_checks_stopped (state_of (performHealthCheck w))))
   \<and> (health_checks_stopped v \<and> no_open rs v \<longrightarrow>
         health_checks_stopped (run rs v) \<and> missedPings (run rs v) = missedPings v)
   \<and> (opens e u \<longrightarrow> missedPings (state_of (step e u)) = 0)"
proof (intro conjI)
  show "health_timers_tracked (run es (init t0 win heap plan))"
    by (rule health_timers_tracked_reachable)
  show "health_checks_stopped v \<and> no_open rs v \<longrightarrow>
         health_checks_stopped (run rs v) \<and> missedPings (run rs v) = missedPings v"
    using no_open_run [of v rs] by blast
  show "opens e u \<longrightarrow> missedPings (state_of (step e u)) = 0"
    by (simp add: opens_missedPings)
qed (rule performHealthCheck_tolerance_effect)

text \<open>
  The amended claim C8 on the degraded connection (one missed probe, 60000 ms
  after the last pong): the tick closes the transport and constructs a new one,
  transmits nothing, leaves the counter at 2 and no health check scheduled; the
  counter is still 2 after the run in which the network stays down, and the open of
  the new transport sets it to zero.
\<close>

theorem missed_probes_force_one_reconnect_witness:
  "missedPings degraded = 1
   \<and> now degraded - lastPongTime degraded > HEALTH_CHECK_TIMEOUT degraded
   \<and> map readyState (sockets (state_of (performHealthCheck degraded))) = [CLOSING, CONNECTING]
   \<and> transmitted (state_of (performHealthCheck degraded)) = transmitted degraded
   \<and> missedPings (state_of (performHealthCheck degraded)) = 2
   \<and> health_checks_stopped (state_of (performHealthCheck degraded))
   \<and> health_checks_stopped reconnected
   \<and> no_open still_down reconnected
   \<and> health_checks_stopped (run still_down reconnected)
   \<and> missedPings (run still_down reconnected) = 2
   \<and> opens (SockOpen 1) reconnected
   \<and> missedPings (state_of (step (SockOpen 1) reconnected)) = 0"
proof -
  have f: "missedPings degraded = 1" "now degraded - lastPongTime degraded = 60000"
    "HEALTH_CHECK_TIMEOUT degraded = 5000" "health_timers_tracked degraded"
    unfolding degraded_def fresh_def health_timers_tracked_def by code_simp+
  have s: "map readyState (sockets (state_of (performHealthCheck degraded)))
      = [CLOSING, CONNECTING]"
    unfolding degraded_def fresh_def by code_simp
  have r: "health_checks_stopped reconnected" "no_open still_down reconnected"
    "opens (SockOpen 1) reconnected" "missedPings reconnected = 2"
    unfolding reconnected_def still_down_def degraded_def fresh_def by code_simp+
  have prem: "now degraded - lastPongTime degraded > HEALTH_CHECK_TIMEOUT degraded
      \<and> missedPings degraded + 1 \<ge> MAX_MISSED_PINGS"
    by (simp add: f MAX_MISSED_PINGS_def)
  note t = missed_probes_force_one_reconnect
    [where w = degraded and v = reconnected and rs = still_down and e = "SockOpen 1"
       and u = reconnected]
  note t2 = mp [OF conjunct1 [OF conjunct2 [OF t]] prem]
  note t3 = mp [OF conjunct1 [OF conjunct2 [OF conjunct2 [OF t]]] conjI [OF r(1) r(2)]]
  note t4 = mp [OF conjunct2 [OF conjunct2 [OF conjunct2 [OF t]]] r(3)]
  from t2 f(4)
  have c: "transmitted (state_of (performHealthCheck degraded)) = transmitted degraded"
    "missedPings (state_of (performHealthCheck degraded)) = missedPings degraded + 1"
    "health_checks_stopped (state_of (performHealthCheck degraded))"
    by blast+
  show ?thesis
    using c s r t3 t4 by (simp add: f)
qed

end
